theory Spec2Isabelle
  imports Main "HOL-Library.Char_ord" "HOL-Library.List_Lexorder" "HOL-Library.Multiset"
begin

section \<open>Strings as the program uses them\<close>

text \<open>
  A string is the byte list of its UTF-8 encoding: a character of the ASCII range is one
  byte below 128, and every byte of any other character is 128 or more. Python compares
  strings by code point, which is the lexicographic order of these bytes (\<open>Char_ord\<close>
  and \<open>List_Lexorder\<close>). Searching for, splitting at and replacing an ASCII character
  work on the bytes as they do on the characters.
\<close>

definition is_ascii :: "char \<Rightarrow> bool" where
  "is_ascii c \<longleftrightarrow> \<not> digit7 c"

text \<open>
  What the program takes from its platform and the repository does not contain:
  \<open>day_name\<close>, the full weekday names of the \<open>LC_TIME\<close> locale, from the weekday number
  (Monday is 0) to the name, for the \<open>%A\<close> directive of \<open>strftime\<close>; and \<open>str_upper\<close>,
  what \<open>str.upper()\<close> returns, by the case mapping of the Unicode database, for a string
  with a character outside the ASCII range (an accented letter becomes its capital, the
  German sharp s becomes \<open>SS\<close>). Both are parameters of everything below.
\<close>

record platform =
  day_name :: "nat \<Rightarrow> string"
  str_upper :: "string \<Rightarrow> string"

text \<open>
  \<open>str.upper()\<close>. In a string of ASCII characters the letters \<open>a\<close> to \<open>z\<close> become \<open>A\<close>
  to \<open>Z\<close> and every other character stays as it is; any other string is mapped as the
  platform says.
\<close>

definition upper_char :: "char \<Rightarrow> char" where
  "upper_char c =
     (case map_of (zip ''abcdefghijklmnopqrstuvwxyz'' ''ABCDEFGHIJKLMNOPQRSTUVWXYZ'') c of
        Some u \<Rightarrow> u
      | None \<Rightarrow> c)"

definition upper :: "platform \<Rightarrow> string \<Rightarrow> string" where
  "upper pf s = (if list_all is_ascii s then map upper_char s else str_upper pf s)"

text \<open>\<open>s.replace(old, new)\<close> for a one-character \<open>old\<close> and \<open>new\<close>.\<close>

definition replace1 :: "char \<Rightarrow> char \<Rightarrow> string \<Rightarrow> string" where
  "replace1 old new s = map (\<lambda>c. if c = old then new else c) s"

text \<open>
  \<open>s.replace(old, new)\<close> for a two-character \<open>old = [a, b]\<close> and a one-character
  \<open>new\<close>: the scan goes left to right and continues behind each replaced occurrence.
\<close>

fun replace2 :: "char \<Rightarrow> char \<Rightarrow> char \<Rightarrow> string \<Rightarrow> string" where
  "replace2 a b new (c # d # s) =
     (if c = a \<and> d = b then new # replace2 a b new s else c # replace2 a b new (d # s))"
| "replace2 a b new s = s"

text \<open>
  \<open>s.split(sep, 1)\<close>: the text before the first separator and, when there is a
  separator, the text behind it.
\<close>

fun partition_sep :: "char \<Rightarrow> string \<Rightarrow> string \<times> string option" where
  "partition_sep sep [] = ([], None)"
| "partition_sep sep (c # s) =
     (if c = sep then ([], Some s)
      else (case partition_sep sep s of (h, t) \<Rightarrow> (c # h, t)))"

definition split1 :: "char \<Rightarrow> string \<Rightarrow> string list" where
  "split1 sep s = (case partition_sep sep s of (h, None) \<Rightarrow> [h] | (h, Some t) \<Rightarrow> [h, t])"

section \<open>The QR payload: \<open>KODE_NAMA-LENGKAP-SISWA\<close>\<close>

text \<open>
  The \<open>try\<close> block of \<open>process_qrcode\<close> (step 1). \<open>None\<close> is the \<open>ValueError\<close> that
  the \<open>except\<close> clause turns into \<open>INVALID_FORMAT\<close>: raised by hand when there is no
  underscore, and by the tuple unpacking when \<open>split\<close> does not give two parts.
  The result is \<open>(kode_upper, nama_lengkap)\<close>.
\<close>

definition parse_qr :: "platform \<Rightarrow> string \<Rightarrow> (string \<times> string) option" where
  "parse_qr pf qr_data =
     (if CHR ''_'' \<notin> set qr_data then None
      else (case split1 (CHR ''_'') qr_data of
              [kode, nama_raw] \<Rightarrow>
                (let nama_lengkap = upper pf (replace1 (CHR ''-'') (CHR '' '') nama_raw);
                     kode_upper = upper pf kode
                 in Some (kode_upper, nama_lengkap))
            | _ \<Rightarrow> None))"

section \<open>Instants and \<open>strftime\<close>\<close>

text \<open>
  What \<open>datetime.datetime.now()\<close> returns, as far as the program reads it. Python keeps
  \<open>1 \<le> year \<le> 9999\<close>, a month in \<open>1..12\<close>, a day in \<open>1..31\<close>, an hour below 24
  and minutes and seconds below 60.
\<close>

record instant =
  year :: nat
  month :: nat
  day :: nat
  hour :: nat
  minute :: nat
  second :: nat

definition valid_instant :: "instant \<Rightarrow> bool" where
  "valid_instant t \<longleftrightarrow>
     1 \<le> year t \<and> year t \<le> 9999 \<and> 1 \<le> month t \<and> month t \<le> 12 \<and>
     1 \<le> day t \<and> day t \<le> 31 \<and> hour t < 24 \<and> minute t < 60 \<and> second t < 60"

text \<open>The calendar day of an instant.\<close>

definition date_of :: "instant \<Rightarrow> nat \<times> nat \<times> nat" where
  "date_of t = (year t, month t, day t)"

definition digit :: "nat \<Rightarrow> char" where
  "digit n = ''0123456789'' ! (n mod 10)"

text \<open>\<open>%d\<close>, \<open>%m\<close>, \<open>%H\<close>, \<open>%M\<close>, \<open>%S\<close>: two digits, zero-padded.\<close>

definition pad2 :: "nat \<Rightarrow> string" where
  "pad2 n = [digit (n div 10), digit n]"

text \<open>\<open>%Y\<close>: the year with century, four digits.\<close>

definition pad4 :: "nat \<Rightarrow> string" where
  "pad4 n = pad2 (n div 100) @ pad2 n"

text \<open>
  The weekday of a date as \<open>datetime\<close> computes it (proleptic Gregorian ordinal,
  Monday is 0), for the \<open>%A\<close> directive.
\<close>

definition is_leap :: "nat \<Rightarrow> bool" where
  "is_leap y \<longleftrightarrow> y mod 4 = 0 \<and> (y mod 100 \<noteq> 0 \<or> y mod 400 = 0)"

definition days_before_year :: "nat \<Rightarrow> nat" where
  "days_before_year y = (y - 1) * 365 + (y - 1) div 4 - (y - 1) div 100 + (y - 1) div 400"

definition days_before_month :: "nat \<Rightarrow> nat \<Rightarrow> nat" where
  "days_before_month y m =
     ([0, 0, 31, 59, 90, 120, 151, 181, 212, 243, 273, 304, 334] ! (m mod 13))
     + (if m > 2 \<and> is_leap y then 1 else 0)"

definition ymd2ord :: "nat \<Rightarrow> nat \<Rightarrow> nat \<Rightarrow> nat" where
  "ymd2ord y m d = days_before_year y + days_before_month y m + d"

definition weekday :: "instant \<Rightarrow> nat" where
  "weekday t = (ymd2ord (year t) (month t) (day t) + 6) mod 7"

text \<open>
  The program asks for the locale \<open>id_ID\<close> at start-up and silently keeps the C locale
  when that is not installed. The weekday names of both are given here for concrete runs.
  Those runs work on ASCII strings only, so that \<open>str_upper\<close> is never consulted; it is
  the identity there.
\<close>

definition id_ID :: platform where
  "id_ID =
     \<lparr>day_name =
        (\<lambda>n. [''Senin'', ''Selasa'', ''Rabu'', ''Kamis'', ''Jumat'', ''Sabtu'', ''Minggu''] ! (n mod 7)),
      str_upper = (\<lambda>s. s)\<rparr>"

definition C_locale :: platform where
  "C_locale =
     \<lparr>day_name =
        (\<lambda>n. [''Monday'', ''Tuesday'', ''Wednesday'', ''Thursday'', ''Friday'', ''Saturday'',
              ''Sunday''] ! (n mod 7)),
      str_upper = (\<lambda>s. s)\<rparr>"

text \<open>
  A platform for a run on one string outside the ASCII range: \<open>caf\<close> followed by e with
  acute accent (in UTF-8 the bytes C3 A9), whose capitals end in the bytes C3 89.
\<close>

definition cafe :: string where
  "cafe = ''caf'' @ [CHR 0xC3, CHR 0xA9]"

definition CAFE :: string where
  "CAFE = ''CAF'' @ [CHR 0xC3, CHR 0x89]"

definition id_ID_cafe :: platform where
  "id_ID_cafe = id_ID\<lparr>str_upper := (\<lambda>s. if s = cafe then CAFE else s)\<rparr>"

text \<open>\<open>today.strftime("%d-%m-%Y")\<close>, \<open>today.strftime("%A, %d-%m-%Y")\<close> and \<open>strftime("%H:%M:%S")\<close>.\<close>

definition strftime_dmY :: "instant \<Rightarrow> string" where
  "strftime_dmY t = pad2 (day t) @ ''-'' @ pad2 (month t) @ ''-'' @ pad4 (year t)"

definition strftime_A_dmY :: "platform \<Rightarrow> instant \<Rightarrow> string" where
  "strftime_A_dmY pf t = day_name pf (weekday t) @ '', '' @ strftime_dmY t"

definition strftime_HMS :: "instant \<Rightarrow> string" where
  "strftime_HMS t = pad2 (hour t) @ '':'' @ pad2 (minute t) @ '':'' @ pad2 (second t)"

section \<open>The partition name\<close>

text \<open>\<open>get_weekly_worksheet_name\<close>, with \<open>datetime.datetime.now()\<close> as the argument \<open>today\<close>.\<close>

definition get_weekly_worksheet_name :: "platform \<Rightarrow> instant \<Rightarrow> string" where
  "get_weekly_worksheet_name pf today =
     (let formatted_string = strftime_A_dmY pf today
      in replace2 (CHR '','') (CHR '' '') (CHR ''_'') (upper pf formatted_string))"

section \<open>The attendance table and the remote store\<close>

text \<open>
  A row of the attendance table. The table is a \<open>DataFrame\<close> with the columns
  \<open>Kode\<close>, \<open>Nama\<close>, \<open>Waktu\<close>, all strings, in index order.
\<close>

record row =
  Kode :: string
  Nama :: string
  Waktu :: string

type_synonym dataframe = "row list"

definition columns :: "string list" where
  "columns = [''Kode'', ''Nama'', ''Waktu'']"

definition SHEET_TITLE :: string where
  "SHEET_TITLE = ''Rekap Absensi Tapak Suci Sidayu''"

text \<open>
  The exceptions that reach the program. The first three come from the spreadsheet
  library: \<open>gc.open\<close> raises \<open>SpreadsheetNotFound\<close> for a missing spreadsheet,
  \<open>sh.worksheet\<close> raises \<open>WorksheetNotFound\<close> for a missing worksheet, and any call may
  fail in transport with \<open>APIError\<close>. They are distinct classes.
\<close>

datatype exn = SpreadsheetNotFound | WorksheetNotFound | APIError | AttributeError | IndexError

text \<open>What the program prints.\<close>

datatype log =
    SheetMissing string
  | WorksheetCreated string
  | Saved string string
  | SaveFailed exn

text \<open>
  The world outside the process: the spreadsheets by title, each a map from worksheet
  name to the data rows below its header row; \<open>faults\<close>, the outcome of the coming remote
  calls in order (\<open>True\<close>: the call fails with \<open>APIError\<close>; none left: the call goes
  through); and the standard output.
\<close>

record world =
  drive :: "string \<rightharpoonup> (string \<rightharpoonup> dataframe)"
  faults :: "bool list"
  stdout :: "log list"

datatype client = Client

text \<open>
  The second component of what \<open>get_attendance_dataframe\<close> returns: an error text, or the
  opened spreadsheet (known by its title).
\<close>

datatype handle = Str string | Spreadsheet string

definition print :: "log \<Rightarrow> world \<Rightarrow> world" where
  "print l w = w\<lparr>stdout := stdout w @ [l]\<rparr>"

text \<open>Every remote call first meets the next fault.\<close>

definition api :: "world \<Rightarrow> bool \<times> world" where
  "api w = (case faults w of [] \<Rightarrow> (False, w) | f # fs \<Rightarrow> (f, w\<lparr>faults := fs\<rparr>))"

definition gc_open :: "string \<Rightarrow> world \<Rightarrow> (exn + string) \<times> world" where
  "gc_open title w =
     (case api w of
        (True, w1) \<Rightarrow> (Inl APIError, w1)
      | (False, w1) \<Rightarrow>
          (case drive w1 title of
             None \<Rightarrow> (Inl SpreadsheetNotFound, w1)
           | Some ss \<Rightarrow> (Inr title, w1)))"

text \<open>A worksheet is known by the title of its spreadsheet and its own name.\<close>

definition sh_worksheet :: "string \<Rightarrow> string \<Rightarrow> world \<Rightarrow> (exn + string \<times> string) \<times> world" where
  "sh_worksheet sh name w =
     (case api w of
        (True, w1) \<Rightarrow> (Inl APIError, w1)
      | (False, w1) \<Rightarrow>
          (case drive w1 sh of
             None \<Rightarrow> (Inl SpreadsheetNotFound, w1)
           | Some ss \<Rightarrow>
               (case ss name of
                  None \<Rightarrow> (Inl WorksheetNotFound, w1)
                | Some rs \<Rightarrow> (Inr (sh, name), w1))))"

definition put_rows :: "string \<times> string \<Rightarrow> dataframe \<Rightarrow> world \<Rightarrow> world" where
  "put_rows ws rs w =
     (case drive w (fst ws) of
        None \<Rightarrow> w
      | Some ss \<Rightarrow> w\<lparr>drive := (drive w)(fst ws \<mapsto> ss(snd ws \<mapsto> rs))\<rparr>)"

definition get_rows :: "string \<times> string \<Rightarrow> world \<Rightarrow> dataframe" where
  "get_rows ws w =
     (case drive w (fst ws) of
        None \<Rightarrow> []
      | Some ss \<Rightarrow> (case ss (snd ws) of None \<Rightarrow> [] | Some rs \<Rightarrow> rs))"

text \<open>\<open>sh.add_worksheet(title=..., rows="100", cols="3")\<close>: a new, empty worksheet.\<close>

definition sh_add_worksheet :: "string \<Rightarrow> string \<Rightarrow> world \<Rightarrow> (exn + string \<times> string) \<times> world" where
  "sh_add_worksheet sh name w =
     (case api w of
        (True, w1) \<Rightarrow> (Inl APIError, w1)
      | (False, w1) \<Rightarrow> (Inr (sh, name), put_rows (sh, name) [] w1))"

text \<open>
  \<open>ws.append_row(columns)\<close> on the new worksheet writes the header row; the data rows
  below it stay as they are.
\<close>

definition ws_append_header :: "string \<times> string \<Rightarrow> world \<Rightarrow> (exn + unit) \<times> world" where
  "ws_append_header ws w =
     (case api w of
        (True, w1) \<Rightarrow> (Inl APIError, w1)
      | (False, w1) \<Rightarrow> (Inr (), w1))"

text \<open>
  \<open>ws.get_all_values()\<close>: the header row and the data rows as lists of cells.
\<close>

definition cells_of_row :: "row \<Rightarrow> string list" where
  "cells_of_row r = [Kode r, Nama r, Waktu r]"

definition ws_get_all_values :: "string \<times> string \<Rightarrow> world \<Rightarrow> (exn + string list list) \<times> world" where
  "ws_get_all_values ws w =
     (case api w of
        (True, w1) \<Rightarrow> (Inl APIError, w1)
      | (False, w1) \<Rightarrow> (Inr (columns # map cells_of_row (get_rows ws w1)), w1))"

text \<open>
  \<open>pd.DataFrame(data[1:], columns=data[0])\<close> for the three-column header: one row per
  list of cells; the library pads short rows with empty cells.
\<close>

fun row_of_cells :: "string list \<Rightarrow> row" where
  "row_of_cells (k # n # t # cs) = \<lparr>Kode = k, Nama = n, Waktu = t\<rparr>"
| "row_of_cells [k, n] = \<lparr>Kode = k, Nama = n, Waktu = []\<rparr>"
| "row_of_cells [k] = \<lparr>Kode = k, Nama = [], Waktu = []\<rparr>"
| "row_of_cells [] = \<lparr>Kode = [], Nama = [], Waktu = []\<rparr>"

definition DataFrame :: "string list list \<Rightarrow> dataframe" where
  "DataFrame cells = map row_of_cells cells"

text \<open>
  \<open>set_with_dataframe(ws, df, include_index=False, row=1, col=1)\<close>: the header and the
  rows of \<open>df\<close> are written from the first cell on; rows of the worksheet below the
  written range are not cleared.
\<close>

definition set_with_dataframe :: "string \<times> string \<Rightarrow> dataframe \<Rightarrow> world \<Rightarrow> (exn + unit) \<times> world" where
  "set_with_dataframe ws df w =
     (case api w of
        (True, w1) \<Rightarrow> (Inl APIError, w1)
      | (False, w1) \<Rightarrow> (Inr (), put_rows ws (df @ drop (length df) (get_rows ws w1)) w1))"

section \<open>The persistence gateway\<close>

text \<open>
  \<open>get_gspread_client\<close>: \<open>creds_json\<close> is the environment variable, \<open>connect\<close> stands
  for \<open>json.loads\<close> followed by \<open>gspread.service_account_from_dict\<close> (\<open>None\<close> when
  either raises). It runs once at start-up; what it prints is left out.
\<close>

definition get_gspread_client :: "(string \<Rightarrow> client option) \<Rightarrow> string option \<Rightarrow> client option" where
  "get_gspread_client connect creds_json =
     (case creds_json of
        None \<Rightarrow> None
      | Some s \<Rightarrow> if s = [] then None else connect s)"

text \<open>
  \<open>get_attendance_dataframe\<close>. \<open>Inl\<close> is an exception that leaves the function. Each
  \<open>except gspread.WorksheetNotFound\<close> clause catches that class and lets every other
  exception through.
\<close>

definition get_attendance_dataframe ::
  "client option \<Rightarrow> platform \<Rightarrow> instant \<Rightarrow> world \<Rightarrow> (exn + dataframe \<times> handle) \<times> world" where
  "get_attendance_dataframe gc pf today w =
     (let current_worksheet_name = get_weekly_worksheet_name pf today in
      case gc of
        None \<Rightarrow> (Inr ([], Str ''Gagal koneksi GSheets''), w)
      | Some c \<Rightarrow>
          (case gc_open SHEET_TITLE w of
             (Inl e, w1) \<Rightarrow>
               if e = WorksheetNotFound
               then (Inr ([], Str ''Sheet Gagal''), print (SheetMissing SHEET_TITLE) w1)
               else (Inl e, w1)
           | (Inr sh, w1) \<Rightarrow>
               (case sh_worksheet sh current_worksheet_name w1 of
                  (Inl e, w2) \<Rightarrow>
                    if e = WorksheetNotFound
                    then (case sh_add_worksheet sh current_worksheet_name w2 of
                            (Inl e', w3) \<Rightarrow> (Inl e', w3)
                          | (Inr ws, w3) \<Rightarrow>
                              (case ws_append_header ws w3 of
                                 (Inl e', w4) \<Rightarrow> (Inl e', w4)
                               | (Inr u, w4) \<Rightarrow>
                                   (Inr ([], Spreadsheet sh),
                                    print (WorksheetCreated current_worksheet_name) w4)))
                    else (Inl e, w2)
                | (Inr ws, w2) \<Rightarrow>
                    (case ws_get_all_values ws w2 of
                       (Inl e, w3) \<Rightarrow> (Inl e, w3)
                     | (Inr data, w3) \<Rightarrow>
                         if length data \<le> 1 then (Inr ([], Spreadsheet sh), w3)
                         else (Inr (DataFrame (tl data), Spreadsheet sh), w3)))))"

text \<open>
  The \<open>try\<close> body of \<open>save_attendance_dataframe\<close>. On an error text instead of a
  spreadsheet, \<open>sh.worksheet\<close> is an \<open>AttributeError\<close>.
\<close>

definition save_body ::
  "dataframe \<Rightarrow> handle \<Rightarrow> string \<Rightarrow> world \<Rightarrow> (exn + unit) \<times> world" where
  "save_body df sh current_worksheet_name w =
     (case sh of
        Str s \<Rightarrow> (Inl AttributeError, w)
      | Spreadsheet t \<Rightarrow>
          (case sh_worksheet t current_worksheet_name w of
             (Inl e, w1) \<Rightarrow> (Inl e, w1)
           | (Inr ws, w1) \<Rightarrow>
               (case set_with_dataframe ws df w1 of
                  (Inl e, w2) \<Rightarrow> (Inl e, w2)
                | (Inr u, w2) \<Rightarrow> (Inr (), print (Saved SHEET_TITLE current_worksheet_name) w2))))"

text \<open>
  \<open>save_attendance_dataframe\<close>: \<open>except Exception\<close> catches whatever the body raises and
  prints it; nothing is returned and nothing is raised.
\<close>

definition save_attendance_dataframe ::
  "dataframe \<Rightarrow> handle \<Rightarrow> platform \<Rightarrow> instant \<Rightarrow> world \<Rightarrow> world" where
  "save_attendance_dataframe df sh pf today w =
     (let current_worksheet_name = get_weekly_worksheet_name pf today in
      case save_body df sh current_worksheet_name w of
        (Inl e, w1) \<Rightarrow> print (SaveFailed e) w1
      | (Inr u, w1) \<Rightarrow> w1)"

section \<open>The scan\<close>

datatype status = SUCCESS | REGISTERED | INVALID_FORMAT | CONNECTION_ERROR

text \<open>
  The dictionary that \<open>process_qrcode\<close> returns; a key that is not set is \<open>None\<close>. Each
  entry of \<open>recent_attendance\<close> is a dictionary, kept as the list of its items.
\<close>

record result =
  nama :: string
  kode :: "string option"
  status :: status
  waktu :: string
  recent_attendance :: "(string \<times> string) list list option"

text \<open>
  The three readings of the clock during one scan: in \<open>get_attendance_dataframe\<close>, in
  \<open>process_qrcode\<close> itself, and in \<open>save_attendance_dataframe\<close>.
\<close>

record clock =
  t_load :: instant
  t_scan :: instant
  t_save :: instant

text \<open>
  \<open>df.sort_values(by='Waktu', ascending=False)\<close>: the library reverses the rows, sorts
  them ascending and reverses again. The order it leaves among rows of equal \<open>Waktu\<close> is
  not specified; here they keep their order.
\<close>

definition sort_values_Waktu_desc :: "dataframe \<Rightarrow> dataframe" where
  "sort_values_Waktu_desc df = rev (sort_key Waktu (rev df))"

text \<open>\<open>[['Nama', 'Waktu']].to_dict('records')\<close>.\<close>

definition to_dict_records :: "dataframe \<Rightarrow> (string \<times> string) list list" where
  "to_dict_records df = map (\<lambda>r. [(''Nama'', Nama r), (''Waktu'', Waktu r)]) df"

definition recent :: "dataframe \<Rightarrow> (string \<times> string) list list" where
  "recent df = to_dict_records (take 10 (sort_values_Waktu_desc df))"

text \<open>\<open>df.empty and isinstance(sh, str)\<close>.\<close>

fun is_str :: "handle \<Rightarrow> bool" where
  "is_str (Str s) = True"
| "is_str (Spreadsheet t) = False"

text \<open>
  \<open>process_qrcode\<close>. \<open>df_absensi.loc[len(df_absensi)] = new_row\<close> appends the row;
  \<open>.iloc[0]\<close> of the matching rows is their first, and an \<open>IndexError\<close> when there is none.
\<close>

definition process_qrcode ::
  "string \<Rightarrow> client option \<Rightarrow> platform \<Rightarrow> clock \<Rightarrow> world \<Rightarrow> (exn + result) \<times> world" where
  "process_qrcode qr_data gc pf ck w =
     (case get_attendance_dataframe gc pf (t_load ck) w of
        (Inl e, w1) \<Rightarrow> (Inl e, w1)
      | (Inr (df_absensi, sh), w1) \<Rightarrow>
          (let time_now_hms = strftime_HMS (t_scan ck) in
           if df_absensi = [] \<and> is_str sh
           then (Inr \<lparr>nama = ''Gagal Koneksi GSheets'', kode = None, status = CONNECTION_ERROR,
                      waktu = time_now_hms, recent_attendance = None\<rparr>, w1)
           else
             (case parse_qr pf qr_data of
                None \<Rightarrow>
                  (Inr \<lparr>nama = ''Format QR Tidak Valid'', kode = None, status = INVALID_FORMAT,
                        waktu = time_now_hms, recent_attendance = None\<rparr>, w1)
              | Some (kode_upper, nama_lengkap) \<Rightarrow>
                  if kode_upper \<in> set (map Kode df_absensi)
                  then (case filter (\<lambda>r. Kode r = kode_upper) df_absensi of
                          [] \<Rightarrow> (Inl IndexError, w1)
                        | r # rs \<Rightarrow>
                            (let waktu_sebelumnya = Waktu r in
                             (Inr \<lparr>nama = nama_lengkap, kode = Some kode_upper,
                                   status = REGISTERED, waktu = waktu_sebelumnya,
                                   recent_attendance = Some (recent df_absensi)\<rparr>, w1)))
                  else
                    (let new_row = \<lparr>Kode = kode_upper, Nama = nama_lengkap, Waktu = time_now_hms\<rparr>;
                         df_absensi' = df_absensi @ [new_row];
                         w2 = save_attendance_dataframe df_absensi' sh pf (t_save ck) w1
                     in (Inr \<lparr>nama = nama_lengkap, kode = Some kode_upper, status = SUCCESS,
                              waktu = time_now_hms,
                              recent_attendance = Some (recent df_absensi')\<rparr>, w2)))))"

section \<open>Concrete instants\<close>

definition friday_morning :: instant where
  "friday_morning = \<lparr>year = 2025, month = 10, day = 24, hour = 8, minute = 5, second = 3\<rparr>"

definition friday_night :: instant where
  "friday_night = \<lparr>year = 2025, month = 10, day = 24, hour = 23, minute = 59, second = 59\<rparr>"

definition saturday_midnight :: instant where
  "saturday_midnight = \<lparr>year = 2025, month = 10, day = 25, hour = 0, minute = 0, second = 0\<rparr>"

text \<open>Noon of a given date.\<close>

definition at_noon :: "nat \<Rightarrow> nat \<Rightarrow> nat \<Rightarrow> instant" where
  "at_noon y m d = \<lparr>year = y, month = m, day = d, hour = 12, minute = 0, second = 0\<rparr>"

section \<open>Concrete clocks and worlds\<close>

definition ck_friday :: clock where
  "ck_friday = \<lparr>t_load = friday_morning, t_scan = friday_morning, t_save = friday_morning\<rparr>"

definition ck_night :: clock where
  "ck_night = \<lparr>t_load = friday_night, t_scan = friday_night, t_save = friday_night\<rparr>"

definition w_no_store :: world where
  "w_no_store = \<lparr>drive = Map.empty, faults = [], stdout = []\<rparr>"

definition w_fresh :: world where
  "w_fresh = \<lparr>drive = [SHEET_TITLE \<mapsto> Map.empty], faults = [], stdout = []\<rparr>"

definition budi :: row where
  "budi = \<lparr>Kode = ''A1'', Nama = ''BUDI SANTOSO'', Waktu = ''08:05:03''\<rparr>"

definition w_budi :: world where
  "w_budi = \<lparr>drive = [SHEET_TITLE \<mapsto> [''JUMAT_24-10-2025'' \<mapsto> [budi]]], faults = [],
             stdout = []\<rparr>"

definition w_write_fails :: world where
  "w_write_fails = \<lparr>drive = [SHEET_TITLE \<mapsto> [''JUMAT_24-10-2025'' \<mapsto> []]],
                    faults = [False, False, False, False, True], stdout = []\<rparr>"

text \<open>
  A partition of Friday, 24 October 2025 with eleven rows, in the order of their arrival
  in the sheet, which is not the order of their times.
\<close>

definition class_rows :: dataframe where
  "class_rows =
     [\<lparr>Kode = ''B01'', Nama = ''ANI'', Waktu = ''07:10:00''\<rparr>,
      \<lparr>Kode = ''B02'', Nama = ''BAYU'', Waktu = ''07:50:00''\<rparr>,
      \<lparr>Kode = ''B03'', Nama = ''CICI'', Waktu = ''07:20:00''\<rparr>,
      \<lparr>Kode = ''B04'', Nama = ''DODI'', Waktu = ''09:00:00''\<rparr>,
      \<lparr>Kode = ''B05'', Nama = ''EKA'', Waktu = ''07:40:00''\<rparr>,
      \<lparr>Kode = ''B06'', Nama = ''FAJAR'', Waktu = ''07:05:00''\<rparr>,
      \<lparr>Kode = ''B07'', Nama = ''GITA'', Waktu = ''08:30:00''\<rparr>,
      \<lparr>Kode = ''B08'', Nama = ''HADI'', Waktu = ''07:30:00''\<rparr>,
      \<lparr>Kode = ''B09'', Nama = ''INDAH'', Waktu = ''06:55:00''\<rparr>,
      \<lparr>Kode = ''B10'', Nama = ''JOKO'', Waktu = ''08:00:00''\<rparr>,
      \<lparr>Kode = ''B11'', Nama = ''KIKI'', Waktu = ''07:45:00''\<rparr>]"

definition citra :: row where
  "citra = \<lparr>Kode = ''C7'', Nama = ''CITRA DEWI'', Waktu = ''08:05:03''\<rparr>"

definition w_class :: world where
  "w_class = \<lparr>drive = [SHEET_TITLE \<mapsto> [''JUMAT_24-10-2025'' \<mapsto> class_rows]], faults = [],
              stdout = []\<rparr>"

text \<open>The ten latest of \<open>class_rows\<close> and \<open>citra\<close>, latest first, as \<open>recent_attendance\<close> has them.\<close>

definition class_top10 :: "(string \<times> string) list list" where
  "class_top10 =
     [[(''Nama'', ''DODI''), (''Waktu'', ''09:00:00'')],
      [(''Nama'', ''GITA''), (''Waktu'', ''08:30:00'')],
      [(''Nama'', ''CITRA DEWI''), (''Waktu'', ''08:05:03'')],
      [(''Nama'', ''JOKO''), (''Waktu'', ''08:00:00'')],
      [(''Nama'', ''BAYU''), (''Waktu'', ''07:50:00'')],
      [(''Nama'', ''KIKI''), (''Waktu'', ''07:45:00'')],
      [(''Nama'', ''EKA''), (''Waktu'', ''07:40:00'')],
      [(''Nama'', ''HADI''), (''Waktu'', ''07:30:00'')],
      [(''Nama'', ''CICI''), (''Waktu'', ''07:20:00'')],
      [(''Nama'', ''ANI''), (''Waktu'', ''07:10:00'')]]"

section \<open>Facts about strings and the parser\<close>

lemma is_ascii_code: "is_ascii c \<longleftrightarrow> (of_char c :: nat) < 128"
  by (cases c) (simp add: is_ascii_def)

lemma ascii_upper: "list_all is_ascii s \<Longrightarrow> upper pf s = map upper_char s"
  by (simp add: upper_def)

lemma upper_letters:
  "upper pf ''abcdefghijklmnopqrstuvwxyz'' = ''ABCDEFGHIJKLMNOPQRSTUVWXYZ''"
  by (simp add: upper_def is_ascii_def upper_char_def)

lemma upper_char_other: "c \<notin> set ''abcdefghijklmnopqrstuvwxyz'' \<Longrightarrow> upper_char c = c"
  by (simp add: upper_char_def)

lemma upper_no_letters:
  "list_all is_ascii s \<Longrightarrow> set s \<inter> set ''abcdefghijklmnopqrstuvwxyz'' = {} \<Longrightarrow> upper pf s = s"
proof -
  assume a: "list_all is_ascii s" and n: "set s \<inter> set ''abcdefghijklmnopqrstuvwxyz'' = {}"
  have "map upper_char s = map (\<lambda>c. c) s"
  proof (rule map_cong [OF refl])
    fix c
    assume "c \<in> set s"
    with n have "c \<notin> set ''abcdefghijklmnopqrstuvwxyz''"
      by blast
    then show "upper_char c = c"
      by (rule upper_char_other)
  qed
  with a show ?thesis
    by (simp add: ascii_upper)
qed

lemma first_cut_unique:
  "l @ c # r = l' @ c # r' \<Longrightarrow> c \<notin> set l \<Longrightarrow> c \<notin> set l' \<Longrightarrow> l = l' \<and> r = r'"
  by (induction l arbitrary: l') (auto simp: Cons_eq_append_conv append_eq_Cons_conv)

lemma partition_sep_split:
  "sep \<notin> set l \<Longrightarrow> partition_sep sep (l @ sep # r) = (l, Some r)"
  by (induction l) auto

lemma partition_sep_none:
  "sep \<notin> set s \<Longrightarrow> partition_sep sep s = (s, None)"
  by (induction s) auto

lemma parse_qr_split:
  "CHR ''_'' \<notin> set l \<Longrightarrow>
   parse_qr pf (l @ CHR ''_'' # r) = Some (upper pf l, upper pf (replace1 (CHR ''-'') (CHR '' '') r))"
  by (simp add: parse_qr_def split1_def partition_sep_split)

lemma parse_qr_none: "CHR ''_'' \<notin> set qr_data \<Longrightarrow> parse_qr pf qr_data = None"
  by (simp add: parse_qr_def)

lemma parse_qr_some_iff: "(\<exists>p. parse_qr pf qr_data = Some p) \<longleftrightarrow> CHR ''_'' \<in> set qr_data"
proof
  assume "\<exists>p. parse_qr pf qr_data = Some p"
  then show "CHR ''_'' \<in> set qr_data"
    by (auto simp: parse_qr_def split: if_splits)
next
  assume "CHR ''_'' \<in> set qr_data"
  then obtain l r where "qr_data = l @ CHR ''_'' # r" and "CHR ''_'' \<notin> set l"
    by (auto dest: split_list_first)
  then show "\<exists>p. parse_qr pf qr_data = Some p"
    by (simp add: parse_qr_split)
qed

section \<open>Facts about \<open>strftime\<close> and the partition name\<close>

lemma digit_in: "digit n \<in> set ''0123456789''"
  unfolding digit_def by (rule nth_mem) simp

lemma digit_inj: "digit a = digit b \<Longrightarrow> a mod 10 = b mod 10"
  unfolding digit_def by (subst (asm) nth_eq_iff_index_eq) simp_all

lemma upper_char_digit: "upper_char (digit n) = digit n"
  using digit_in [of n] by (auto simp: upper_char_def)

lemma ascii_digit: "is_ascii (digit n)"
  using digit_in [of n] by (auto simp: is_ascii_def)

lemma upper_char_dash: "upper_char (CHR ''-'') = CHR ''-''"
  by (simp add: upper_char_def)

lemma upper_dmY: "map upper_char (strftime_dmY t) = strftime_dmY t"
  by (simp add: strftime_dmY_def pad4_def pad2_def upper_char_digit upper_char_dash)

lemma ascii_dmY: "list_all is_ascii (strftime_dmY t)"
  by (simp add: strftime_dmY_def pad4_def pad2_def ascii_digit) (simp add: is_ascii_def)

lemma mod_100_digits: "(a::nat) mod 100 = 10 * (a div 10 mod 10) + a mod 10"
  using mod_mult2_eq [of a 10 10] by simp

lemma pad2_inj: "pad2 a = pad2 b \<Longrightarrow> a mod 100 = b mod 100"
proof -
  assume "pad2 a = pad2 b"
  then have "(a div 10) mod 10 = (b div 10) mod 10" and "a mod 10 = b mod 10"
    by (auto simp: pad2_def dest: digit_inj)
  then show ?thesis
    by (simp only: mod_100_digits)
qed

lemma pad4_inj: "pad4 a = pad4 b \<Longrightarrow> a < 10000 \<Longrightarrow> b < 10000 \<Longrightarrow> a = b"
proof -
  assume "pad4 a = pad4 b" and lt: "a < 10000" "b < 10000"
  then have "pad2 (a div 100) = pad2 (b div 100)" and "pad2 a = pad2 b"
    by (auto simp: pad4_def pad2_def)
  then have "(a div 100) mod 100 = (b div 100) mod 100" and m: "a mod 100 = b mod 100"
    by (auto dest: pad2_inj)
  moreover from lt have "a div 100 < 100" "b div 100 < 100"
    by simp_all
  ultimately have d: "a div 100 = b div 100"
    by simp
  have "a = 100 * (a div 100) + a mod 100"
    by simp
  also have "\<dots> = 100 * (b div 100) + b mod 100"
    by (simp only: d m)
  also have "\<dots> = b"
    by simp
  finally show ?thesis .
qed

lemma length_dmY: "length (strftime_dmY t) = 10"
  by (simp add: strftime_dmY_def pad4_def pad2_def)

lemma dmY_inj:
  assumes "strftime_dmY s = strftime_dmY t" "valid_instant s" "valid_instant t"
  shows "date_of s = date_of t"
proof -
  from assms(1) have "pad2 (day s) = pad2 (day t)" "pad2 (month s) = pad2 (month t)"
    "pad4 (year s) = pad4 (year t)"
    by (auto simp: strftime_dmY_def pad2_def pad4_def)
  then have "day s mod 100 = day t mod 100" "month s mod 100 = month t mod 100" "year s = year t"
    using assms(2,3) by (auto dest: pad2_inj pad4_inj simp: valid_instant_def)
  then show ?thesis using assms(2,3) by (simp add: date_of_def valid_instant_def)
qed

lemma replace2_none: "a \<notin> set s \<Longrightarrow> replace2 a b n s = s"
  by (induction a b n s rule: replace2.induct) auto

lemma replace2_sep:
  "a \<noteq> b \<Longrightarrow> replace2 a b n (u @ a # b # d) = replace2 a b n u @ n # replace2 a b n d"
  by (induction a b n u rule: replace2.induct) auto

lemma upper_char_comma: "upper_char c = CHR '','' \<longleftrightarrow> c = CHR '',''"
  by (auto simp: upper_char_def split: option.splits if_splits)

lemma comma_upper_char: "CHR '','' = upper_char c \<longleftrightarrow> c = CHR '',''"
  using upper_char_comma [of c] by auto

lemma comma_upper: "CHR '','' \<in> set (map upper_char s) \<longleftrightarrow> CHR '','' \<in> set s"
  by (induction s) (auto simp: upper_char_comma comma_upper_char)

lemma digit_not_comma: "CHR '','' \<noteq> digit n"
  using digit_in [of n] by auto

lemma dmY_no_comma: "CHR '','' \<notin> set (strftime_dmY t)"
  by (simp add: strftime_dmY_def pad4_def pad2_def digit_not_comma)

lemma upper_char_sep: "upper_char (CHR '','') = CHR '',''" "upper_char (CHR '' '') = CHR '' ''"
  by (simp_all add: upper_char_def)

lemma worksheet_name_eq:
  assumes "list_all is_ascii (day_name pf (weekday t))"
  shows "get_weekly_worksheet_name pf t =
     replace2 (CHR '','') (CHR '' '') (CHR ''_'') (map upper_char (day_name pf (weekday t))) @
     ''_'' @ strftime_dmY t"
proof -
  have a: "list_all is_ascii (strftime_A_dmY pf t)"
    using assms ascii_dmY [of t] by (simp add: strftime_A_dmY_def is_ascii_def)
  have "map upper_char (strftime_A_dmY pf t) =
      map upper_char (day_name pf (weekday t)) @ CHR '','' # CHR '' '' # strftime_dmY t"
    by (simp add: strftime_A_dmY_def upper_char_sep upper_dmY)
  then have up: "upper pf (strftime_A_dmY pf t) =
      map upper_char (day_name pf (weekday t)) @ CHR '','' # CHR '' '' # strftime_dmY t"
    by (simp only: ascii_upper [OF a])
  have ne: "CHR '','' \<noteq> CHR '' ''"
    by simp
  show ?thesis
    unfolding get_weekly_worksheet_name_def Let_def up replace2_sep [OF ne]
      replace2_none [OF dmY_no_comma]
    by simp
qed

lemma weekday_friday: "weekday friday_morning = 4"
  by (simp add: weekday_def ymd2ord_def days_before_year_def days_before_month_def is_leap_def
      friday_morning_def)

lemma ascii_friday: "list_all is_ascii (day_name id_ID (weekday friday_morning))"
  by (simp add: weekday_friday id_ID_def is_ascii_def)

lemma dmY_friday: "strftime_dmY friday_morning = ''24-10-2025''"
  by (simp add: strftime_dmY_def pad4_def pad2_def digit_def friday_morning_def)

lemma HMS_friday: "strftime_HMS friday_morning = ''08:05:03''"
  by (simp add: strftime_HMS_def pad2_def digit_def friday_morning_def)

lemma name_friday: "get_weekly_worksheet_name id_ID friday_morning = ''JUMAT_24-10-2025''"
  unfolding worksheet_name_eq [OF ascii_friday]
  by (simp add: weekday_friday id_ID_def upper_char_def dmY_friday)

lemma worksheet_name_same_day:
  "date_of s = date_of t \<Longrightarrow> get_weekly_worksheet_name pf s = get_weekly_worksheet_name pf t"
  by (simp add: date_of_def get_weekly_worksheet_name_def strftime_A_dmY_def strftime_dmY_def
      weekday_def)

lemma worksheet_name_other_day:
  assumes "valid_instant s" "valid_instant t" "date_of s \<noteq> date_of t"
    and as: "list_all is_ascii (day_name pf (weekday s))"
    and at: "list_all is_ascii (day_name pf (weekday t))"
  shows "get_weekly_worksheet_name pf s \<noteq> get_weekly_worksheet_name pf t"
proof
  assume "get_weekly_worksheet_name pf s = get_weekly_worksheet_name pf t"
  then have "strftime_dmY s = strftime_dmY t"
    unfolding worksheet_name_eq [OF as] worksheet_name_eq [OF at]
    by (simp add: append_eq_append_conv length_dmY)
  with assms(1-3) show False
    by (auto dest: dmY_inj)
qed

lemma worksheet_name_plain:
  assumes a: "list_all is_ascii (day_name pf (weekday t))"
    and n: "CHR '','' \<notin> set (day_name pf (weekday t))"
  shows "get_weekly_worksheet_name pf t =
     map upper_char (day_name pf (weekday t)) @ ''_'' @ strftime_dmY t"
proof -
  from n have "CHR '','' \<notin> set (map upper_char (day_name pf (weekday t)))"
    by (simp only: comma_upper) simp
  then have "replace2 (CHR '','') (CHR '' '') (CHR ''_'') (map upper_char (day_name pf (weekday t))) =
      map upper_char (day_name pf (weekday t))"
    by (rule replace2_none)
  then show ?thesis
    by (simp only: worksheet_name_eq [OF a])
qed

section \<open>Facts about the persistence gateway\<close>

lemma api_no_faults: "faults w = [] \<Longrightarrow> api w = (False, w)"
  by (simp add: api_def)

lemma DataFrame_cells: "DataFrame (map cells_of_row rs) = rs"
  by (induction rs) (simp_all add: DataFrame_def cells_of_row_def)

lemma load_no_client:
  "get_attendance_dataframe None pf t w = (Inr ([], Str ''Gagal koneksi GSheets''), w)"
  by (simp add: get_attendance_dataframe_def)

lemma load_store_absent:
  "faults w = [] \<Longrightarrow> drive w SHEET_TITLE = None \<Longrightarrow>
   get_attendance_dataframe (Some c) pf t w = (Inl SpreadsheetNotFound, w)"
  by (simp add: get_attendance_dataframe_def gc_open_def api_no_faults)

lemma load_present:
  assumes "faults w = []" "drive w SHEET_TITLE = Some ss"
    and "ss (get_weekly_worksheet_name pf t) = Some rs"
  shows "get_attendance_dataframe (Some c) pf t w = (Inr (rs, Spreadsheet SHEET_TITLE), w)"
proof -
  have "DataFrame (map cells_of_row rs) = rs"
    by (rule DataFrame_cells)
  with assms show ?thesis
    by (cases "rs = []")
      (simp_all add: get_attendance_dataframe_def gc_open_def sh_worksheet_def
        ws_get_all_values_def get_rows_def api_no_faults Let_def)
qed

lemma load_absent:
  assumes "faults w = []" "drive w SHEET_TITLE = Some ss"
    and "ss (get_weekly_worksheet_name pf t) = None"
  shows "get_attendance_dataframe (Some c) pf t w =
    (Inr ([], Spreadsheet SHEET_TITLE),
     print (WorksheetCreated (get_weekly_worksheet_name pf t))
       (put_rows (SHEET_TITLE, get_weekly_worksheet_name pf t) [] w))"
proof -
  have "faults (put_rows (SHEET_TITLE, get_weekly_worksheet_name pf t) [] w) = []"
    using assms by (simp add: put_rows_def)
  with assms show ?thesis
    by (simp add: get_attendance_dataframe_def gc_open_def sh_worksheet_def sh_add_worksheet_def
        ws_append_header_def api_no_faults Let_def)
qed

lemma save_ok:
  assumes "faults w = []" "drive w SHEET_TITLE = Some ss"
    and "ss (get_weekly_worksheet_name pf t) = Some old"
  shows "save_attendance_dataframe df (Spreadsheet SHEET_TITLE) pf t w =
    print (Saved SHEET_TITLE (get_weekly_worksheet_name pf t))
      (put_rows (SHEET_TITLE, get_weekly_worksheet_name pf t) (df @ drop (length df) old) w)"
  using assms
  by (simp add: save_attendance_dataframe_def save_body_def sh_worksheet_def
      set_with_dataframe_def get_rows_def api_no_faults Let_def)

lemma save_failed:
  "save_body df sh (get_weekly_worksheet_name pf t) w = (Inl e, w1) \<Longrightarrow>
   save_attendance_dataframe df sh pf t w = print (SaveFailed e) w1"
  by (simp add: save_attendance_dataframe_def)

lemma save_body_failed_drive:
  "save_body df sh name w = (Inl e, w1) \<Longrightarrow> drive w1 = drive w"
  by (auto simp: save_body_def sh_worksheet_def set_with_dataframe_def api_def
      split: handle.splits list.splits bool.splits option.splits if_splits prod.splits sum.splits)

lemma save_prints:
  "length (stdout (save_attendance_dataframe df sh pf t w)) = Suc (length (stdout w))"
  by (auto simp: save_attendance_dataframe_def save_body_def sh_worksheet_def
      set_with_dataframe_def api_def print_def put_rows_def Let_def
      split: handle.splits list.splits bool.splits option.splits if_splits prod.splits sum.splits)

section \<open>Facts about the scan\<close>

lemma length_recent: "length (recent df) \<le> 10"
  by (simp add: recent_def to_dict_records_def)

lemma mset_sort_values: "mset (sort_values_Waktu_desc df) = mset df"
  by (simp add: sort_values_Waktu_desc_def)

lemma sorted_sort_values:
  "sorted_wrt (\<lambda>a b. Waktu b \<le> Waktu a) (sort_values_Waktu_desc df)"
proof -
  have "sorted (map Waktu (sort_key Waktu (rev df)))"
    by (rule sorted_sort_key)
  then have "sorted_wrt (\<lambda>a b. Waktu a \<le> Waktu b) (sort_key Waktu (rev df))"
    by (simp add: sorted_map)
  then show ?thesis
    by (simp add: sort_values_Waktu_desc_def sorted_wrt_rev)
qed

lemma sorted_recent:
  "sorted_wrt (\<lambda>a b. the (map_of b ''Waktu'') \<le> the (map_of a ''Waktu'')) (recent df)"
proof -
  have "sorted_wrt (\<lambda>a b. Waktu b \<le> Waktu a) (take 10 (sort_values_Waktu_desc df))"
    using sorted_sort_values by (rule sorted_wrt_take)
  then show ?thesis
    by (simp add: recent_def to_dict_records_def sorted_wrt_map)
qed

lemma keys_recent: "d \<in> set (recent df) \<Longrightarrow> map fst d = [''Nama'', ''Waktu'']"
  by (auto simp: recent_def to_dict_records_def)

lemma process_raises:
  "get_attendance_dataframe gc pf (t_load ck) w = (Inl e, w1) \<Longrightarrow>
   process_qrcode qr_data gc pf ck w = (Inl e, w1)"
  by (simp add: process_qrcode_def)

lemma process_connection_error:
  "get_attendance_dataframe gc pf (t_load ck) w = (Inr ([], Str s), w1) \<Longrightarrow>
   process_qrcode qr_data gc pf ck w =
     (Inr \<lparr>nama = ''Gagal Koneksi GSheets'', kode = None, status = CONNECTION_ERROR,
            waktu = strftime_HMS (t_scan ck), recent_attendance = None\<rparr>, w1)"
  by (simp add: process_qrcode_def Let_def)

lemma process_invalid:
  "get_attendance_dataframe gc pf (t_load ck) w = (Inr (df, sh), w1) \<Longrightarrow>
   \<not> (df = [] \<and> is_str sh) \<Longrightarrow> parse_qr pf qr_data = None \<Longrightarrow>
   process_qrcode qr_data gc pf ck w =
     (Inr \<lparr>nama = ''Format QR Tidak Valid'', kode = None, status = INVALID_FORMAT,
            waktu = strftime_HMS (t_scan ck), recent_attendance = None\<rparr>, w1)"
  by (simp add: process_qrcode_def Let_def)

lemma filter_first:
  "\<forall>p\<in>set pre. \<not> P p \<Longrightarrow> P r \<Longrightarrow> filter P (pre @ r # post) = r # filter P post"
  by (induction pre) auto

lemma process_registered:
  assumes "get_attendance_dataframe gc pf (t_load ck) w = (Inr (pre @ r # post, sh), w1)"
    and "parse_qr pf qr_data = Some (k, n)" and "Kode r = k" and "k \<notin> set (map Kode pre)"
  shows "process_qrcode qr_data gc pf ck w =
     (Inr \<lparr>nama = n, kode = Some k, status = REGISTERED, waktu = Waktu r,
            recent_attendance = Some (recent (pre @ r # post))\<rparr>, w1)"
proof -
  have "\<forall>p\<in>set pre. \<not> Kode p = k"
  proof
    fix p
    assume "p \<in> set pre"
    then have "Kode p \<in> set (map Kode pre)"
      by simp
    with assms(4) show "\<not> Kode p = k"
      by auto
  qed
  then have "filter (\<lambda>x. Kode x = k) (pre @ r # post) = r # filter (\<lambda>x. Kode x = k) post"
    using assms(3) by (rule filter_first)
  with assms show ?thesis
    by (simp add: process_qrcode_def Let_def)
qed

lemma process_success:
  "get_attendance_dataframe gc pf (t_load ck) w = (Inr (df, sh), w1) \<Longrightarrow>
   \<not> (df = [] \<and> is_str sh) \<Longrightarrow> parse_qr pf qr_data = Some (k, n) \<Longrightarrow>
   k \<notin> set (map Kode df) \<Longrightarrow>
   process_qrcode qr_data gc pf ck w =
     (Inr \<lparr>nama = n, kode = Some k, status = SUCCESS, waktu = strftime_HMS (t_scan ck),
            recent_attendance =
              Some (recent (df @ [\<lparr>Kode = k, Nama = n, Waktu = strftime_HMS (t_scan ck)\<rparr>]))\<rparr>,
      save_attendance_dataframe
        (df @ [\<lparr>Kode = k, Nama = n, Waktu = strftime_HMS (t_scan ck)\<rparr>]) sh pf (t_save ck) w1)"
  by (simp add: process_qrcode_def Let_def)

lemma first_match:
  "k \<in> set (map Kode df) \<Longrightarrow>
   \<exists>pre r post. df = pre @ r # post \<and> Kode r = k \<and> k \<notin> set (map Kode pre)"
proof -
  assume "k \<in> set (map Kode df)"
  then have "\<exists>x\<in>set df. Kode x = k"
    by auto
  then have "\<exists>pre r post. df = pre @ r # post \<and> Kode r = k \<and> (\<forall>y\<in>set pre. \<not> Kode y = k)"
    by (rule split_list_first_prop)
  then show ?thesis
    by fastforce
qed

section \<open>Facts about the concrete runs and about two scans in a row\<close>

lemma parse_budi: "parse_qr id_ID ''A1_BUDI-SANTOSO'' = Some (''A1'', ''BUDI SANTOSO'')"
  by (simp add: parse_qr_def split1_def upper_def is_ascii_def upper_char_def replace1_def)

lemma parse_budi_other: "parse_qr id_ID ''a1_siti-aminah'' = Some (''A1'', ''SITI AMINAH'')"
  by (simp add: parse_qr_def split1_def upper_def is_ascii_def upper_char_def replace1_def)

lemma HMS_night: "strftime_HMS friday_night = ''23:59:59''"
  by (simp add: strftime_HMS_def pad2_def digit_def friday_night_def)

lemma name_night: "get_weekly_worksheet_name id_ID friday_night = ''JUMAT_24-10-2025''"
  using worksheet_name_same_day [of friday_night friday_morning id_ID] name_friday
  by (simp add: date_of_def friday_morning_def friday_night_def)

lemma load_fresh:
  "get_attendance_dataframe (Some Client) id_ID friday_morning w_fresh =
     (Inr ([], Spreadsheet SHEET_TITLE),
      print (WorksheetCreated ''JUMAT_24-10-2025'')
        (put_rows (SHEET_TITLE, ''JUMAT_24-10-2025'') [] w_fresh))"
  using load_absent [of w_fresh Map.empty id_ID friday_morning Client]
  by (simp add: name_friday w_fresh_def)

lemma load_budi:
  "get_attendance_dataframe (Some Client) id_ID friday_night w_budi =
     (Inr ([budi], Spreadsheet SHEET_TITLE), w_budi)"
  using load_present [of w_budi "[''JUMAT_24-10-2025'' \<mapsto> [budi]]" id_ID friday_night "[budi]" Client]
  by (simp add: name_night w_budi_def)

lemma not_sentinel_fresh: "\<not> ([] = ([]::dataframe) \<and> is_str (Spreadsheet SHEET_TITLE))"
  by simp

lemma recent_budi: "recent [budi] = [[(''Nama'', ''BUDI SANTOSO''), (''Waktu'', ''08:05:03'')]]"
  by (simp add: recent_def to_dict_records_def sort_values_Waktu_desc_def budi_def)

lemma world_after_load_fresh:
  "faults (print (WorksheetCreated ''JUMAT_24-10-2025'')
      (put_rows (SHEET_TITLE, ''JUMAT_24-10-2025'') [] w_fresh)) = [] \<and>
   drive (print (WorksheetCreated ''JUMAT_24-10-2025'')
      (put_rows (SHEET_TITLE, ''JUMAT_24-10-2025'') [] w_fresh)) SHEET_TITLE =
     Some [''JUMAT_24-10-2025'' \<mapsto> []]"
  by (simp add: print_def put_rows_def w_fresh_def)

lemma process_Inr_cases:
  assumes "process_qrcode qr_data gc pf ck w = (Inr res, w')"
  shows "\<exists>df sh w1. get_attendance_dataframe gc pf (t_load ck) w = (Inr (df, sh), w1) \<and>
     ((status res = CONNECTION_ERROR \<and> recent_attendance res = None) \<or>
      (status res = INVALID_FORMAT \<and> recent_attendance res = None) \<or>
      (status res = REGISTERED \<and> recent_attendance res = Some (recent df)) \<or>
      (status res = SUCCESS \<and>
       recent_attendance res =
         Some (recent (df @ [\<lparr>Kode = the (kode res), Nama = nama res, Waktu = waktu res\<rparr>]))))"
  using assms unfolding process_qrcode_def Let_def
  by (auto split: prod.splits sum.splits option.splits if_splits list.splits)

lemma recent_as_sorted:
  "\<exists>srt. mset srt = mset tbl \<and> sorted_wrt (\<lambda>a b. Waktu b \<le> Waktu a) srt \<and>
     recent tbl = map (\<lambda>r. [(''Nama'', Nama r), (''Waktu'', Waktu r)]) (take 10 srt)"
  by (intro exI [of _ "sort_values_Waktu_desc tbl"])
    (simp add: mset_sort_values sorted_sort_values recent_def to_dict_records_def)

lemma load_write_fails:
  "get_attendance_dataframe (Some Client) id_ID friday_morning w_write_fails =
     (Inr ([], Spreadsheet SHEET_TITLE), w_write_fails\<lparr>faults := [False, True]\<rparr>)"
  by (simp add: get_attendance_dataframe_def gc_open_def sh_worksheet_def ws_get_all_values_def
      get_rows_def api_def Let_def name_friday w_write_fails_def)

lemma save_body_write_fails:
  "save_body [budi] (Spreadsheet SHEET_TITLE) ''JUMAT_24-10-2025''
     (w_write_fails\<lparr>faults := [False, True]\<rparr>) =
     (Inl APIError, w_write_fails\<lparr>faults := []\<rparr>)"
  by (simp add: save_body_def sh_worksheet_def set_with_dataframe_def api_def w_write_fails_def)

lemma load_ok:
  assumes "faults w = []" "drive w SHEET_TITLE = Some ss"
  shows "\<exists>w1 ss1.
     get_attendance_dataframe (Some c) pf t w =
       (Inr (get_rows (SHEET_TITLE, get_weekly_worksheet_name pf t) w, Spreadsheet SHEET_TITLE), w1) \<and>
     faults w1 = [] \<and> drive w1 SHEET_TITLE = Some ss1 \<and>
     ss1 (get_weekly_worksheet_name pf t) =
       Some (get_rows (SHEET_TITLE, get_weekly_worksheet_name pf t) w)"
proof (cases "ss (get_weekly_worksheet_name pf t)")
  case None
  let ?w1 = "print (WorksheetCreated (get_weekly_worksheet_name pf t))
      (put_rows (SHEET_TITLE, get_weekly_worksheet_name pf t) [] w)"
  have "get_attendance_dataframe (Some c) pf t w = (Inr ([], Spreadsheet SHEET_TITLE), ?w1)"
    using assms None by (rule load_absent)
  moreover have "get_rows (SHEET_TITLE, get_weekly_worksheet_name pf t) w = []"
    using assms None by (simp add: get_rows_def)
  moreover have "faults ?w1 = []"
    and "drive ?w1 SHEET_TITLE = Some (ss(get_weekly_worksheet_name pf t \<mapsto> []))"
    using assms by (simp_all add: print_def put_rows_def)
  ultimately show ?thesis
    by simp
next
  case (Some rs)
  have "get_attendance_dataframe (Some c) pf t w = (Inr (rs, Spreadsheet SHEET_TITLE), w)"
    using assms Some by (rule load_present)
  moreover have "get_rows (SHEET_TITLE, get_weekly_worksheet_name pf t) w = rs"
    using assms Some by (simp add: get_rows_def)
  ultimately show ?thesis
    using assms Some by simp
qed

lemma recent_single: "recent [r] = [[(''Nama'', Nama r), (''Waktu'', Waktu r)]]"
  by (simp add: recent_def to_dict_records_def sort_values_Waktu_desc_def)

lemma scan_budi_first:
  "process_qrcode ''A1_BUDI-SANTOSO'' (Some Client) id_ID ck_night w_budi =
     (Inr \<lparr>nama = ''BUDI SANTOSO'', kode = Some ''A1'', status = REGISTERED,
            waktu = ''08:05:03'',
            recent_attendance = Some [[(''Nama'', ''BUDI SANTOSO''), (''Waktu'', ''08:05:03'')]]\<rparr>,
      w_budi)"
proof -
  have "get_attendance_dataframe (Some Client) id_ID (t_load ck_night) w_budi =
      (Inr ([] @ budi # [], Spreadsheet SHEET_TITLE), w_budi)"
    using load_budi by (simp add: ck_night_def)
  then have "process_qrcode ''A1_BUDI-SANTOSO'' (Some Client) id_ID ck_night w_budi =
      (Inr \<lparr>nama = ''BUDI SANTOSO'', kode = Some ''A1'', status = REGISTERED, waktu = Waktu budi,
             recent_attendance = Some (recent ([] @ budi # []))\<rparr>, w_budi)"
    using parse_budi by (rule process_registered) (simp_all add: budi_def)
  then show ?thesis
    by (simp add: recent_budi) (simp add: budi_def)
qed

lemma scan_write_fails:
  "process_qrcode ''A1_BUDI-SANTOSO'' (Some Client) id_ID ck_friday w_write_fails =
     (Inr \<lparr>nama = ''BUDI SANTOSO'', kode = Some ''A1'', status = SUCCESS, waktu = ''08:05:03'',
            recent_attendance = Some [[(''Nama'', ''BUDI SANTOSO''), (''Waktu'', ''08:05:03'')]]\<rparr>,
      print (SaveFailed APIError) (w_write_fails\<lparr>faults := []\<rparr>))"
proof -
  have t: "strftime_HMS (t_scan ck_friday) = ''08:05:03''" "t_save ck_friday = friday_morning"
    by (simp_all add: ck_friday_def HMS_friday)
  have h1: "get_attendance_dataframe (Some Client) id_ID (t_load ck_friday) w_write_fails =
      (Inr ([], Spreadsheet SHEET_TITLE), w_write_fails\<lparr>faults := [False, True]\<rparr>)"
    using load_write_fails by (simp add: ck_friday_def)
  have h2: "\<not> ([] = ([]::dataframe) \<and> is_str (Spreadsheet SHEET_TITLE))"
    by simp
  have h4: "''A1'' \<notin> set (map Kode [])"
    by simp
  have "save_body [budi] (Spreadsheet SHEET_TITLE) (get_weekly_worksheet_name id_ID friday_morning)
      (w_write_fails\<lparr>faults := [False, True]\<rparr>) =
      (Inl APIError, w_write_fails\<lparr>faults := []\<rparr>)"
    using save_body_write_fails by (simp add: name_friday)
  then have "save_attendance_dataframe [budi] (Spreadsheet SHEET_TITLE) id_ID friday_morning
      (w_write_fails\<lparr>faults := [False, True]\<rparr>) =
      print (SaveFailed APIError) (w_write_fails\<lparr>faults := []\<rparr>)"
    by (rule save_failed)
  then show ?thesis
    using process_success [OF h1 h2 parse_budi h4] t recent_budi by (simp add: budi_def)
qed

lemma scan_after_write_failure:
  "fst (process_qrcode ''A1_BUDI-SANTOSO'' (Some Client) id_ID ck_night
          (print (SaveFailed APIError) (w_write_fails\<lparr>faults := []\<rparr>))) =
     Inr \<lparr>nama = ''BUDI SANTOSO'', kode = Some ''A1'', status = SUCCESS, waktu = ''23:59:59'',
          recent_attendance = Some [[(''Nama'', ''BUDI SANTOSO''), (''Waktu'', ''23:59:59'')]]\<rparr>"
proof -
  let ?w = "print (SaveFailed APIError) (w_write_fails\<lparr>faults := []\<rparr>)"
  have "get_attendance_dataframe (Some Client) id_ID friday_night ?w =
      (Inr ([], Spreadsheet SHEET_TITLE), ?w)"
    using load_present [of ?w "[''JUMAT_24-10-2025'' \<mapsto> []]" id_ID friday_night "[]" Client]
    by (simp add: name_night print_def w_write_fails_def)
  then have h1: "get_attendance_dataframe (Some Client) id_ID (t_load ck_night) ?w =
      (Inr ([], Spreadsheet SHEET_TITLE), ?w)"
    by (simp add: ck_night_def)
  have h2: "\<not> ([] = ([]::dataframe) \<and> is_str (Spreadsheet SHEET_TITLE))"
    by simp
  have h4: "''A1'' \<notin> set (map Kode [])"
    by simp
  have t: "strftime_HMS (t_scan ck_night) = ''23:59:59''"
    by (simp add: ck_night_def HMS_night)
  show ?thesis
    using process_success [OF h1 h2 parse_budi h4] t by (simp add: recent_single)
qed

lemma parse_citra: "parse_qr id_ID ''c7_citra-dewi'' = Some (''C7'', ''CITRA DEWI'')"
  by (simp add: parse_qr_def split1_def upper_def is_ascii_def upper_char_def replace1_def)

lemma load_class:
  "get_attendance_dataframe (Some Client) id_ID friday_morning w_class =
     (Inr (class_rows, Spreadsheet SHEET_TITLE), w_class)"
  using load_present [of w_class "[''JUMAT_24-10-2025'' \<mapsto> class_rows]" id_ID friday_morning
      class_rows Client]
  by (simp add: name_friday w_class_def)

lemma recent_class: "recent (class_rows @ [citra]) = class_top10"
  by (simp add: recent_def to_dict_records_def sort_values_Waktu_desc_def class_rows_def
      citra_def class_top10_def)

lemma save_class:
  "save_attendance_dataframe (class_rows @ [citra]) (Spreadsheet SHEET_TITLE) id_ID
     friday_morning w_class =
   print (Saved SHEET_TITLE ''JUMAT_24-10-2025'')
     (put_rows (SHEET_TITLE, ''JUMAT_24-10-2025'') (class_rows @ [citra]) w_class)"
  using save_ok [of w_class "[''JUMAT_24-10-2025'' \<mapsto> class_rows]" id_ID friday_morning
      class_rows "class_rows @ [citra]"]
  by (simp add: name_friday w_class_def)

lemma citra_new: "''C7'' \<notin> set (map Kode class_rows)"
  by (simp add: class_rows_def)

lemma scan_class:
  "process_qrcode ''c7_citra-dewi'' (Some Client) id_ID ck_friday w_class =
     (Inr \<lparr>nama = ''CITRA DEWI'', kode = Some ''C7'', status = SUCCESS, waktu = ''08:05:03'',
            recent_attendance = Some class_top10\<rparr>,
      print (Saved SHEET_TITLE ''JUMAT_24-10-2025'')
        (put_rows (SHEET_TITLE, ''JUMAT_24-10-2025'') (class_rows @ [citra]) w_class))"
proof -
  have t: "strftime_HMS (t_scan ck_friday) = ''08:05:03''" "t_save ck_friday = friday_morning"
    by (simp_all add: ck_friday_def HMS_friday)
  have h1: "get_attendance_dataframe (Some Client) id_ID (t_load ck_friday) w_class =
      (Inr (class_rows, Spreadsheet SHEET_TITLE), w_class)"
    using load_class by (simp add: ck_friday_def)
  have h2: "\<not> (class_rows = [] \<and> is_str (Spreadsheet SHEET_TITLE))"
    by simp
  have c: "\<lparr>Kode = ''C7'', Nama = ''CITRA DEWI'', Waktu = ''08:05:03''\<rparr> = citra"
    by (simp add: citra_def)
  show ?thesis
    using process_success [OF h1 h2 parse_citra citra_new]
    by (simp add: t c recent_class save_class)
qed

lemma day_names_id_ID:
  "list_all is_ascii (day_name id_ID n) \<and> CHR '','' \<notin> set (day_name id_ID n)"
proof -
  have "n mod 7 < 7"
    by simp
  then consider "n mod 7 = 0" | "n mod 7 = 1" | "n mod 7 = 2" | "n mod 7 = 3" | "n mod 7 = 4"
    | "n mod 7 = 5" | "n mod 7 = 6"
    by linarith
  then show ?thesis
    by cases (simp_all add: id_ID_def is_ascii_def)
qed

lemma day_names_C_locale:
  "list_all is_ascii (day_name C_locale n) \<and> CHR '','' \<notin> set (day_name C_locale n)"
proof -
  have "n mod 7 < 7"
    by simp
  then consider "n mod 7 = 0" | "n mod 7 = 1" | "n mod 7 = 2" | "n mod 7 = 3" | "n mod 7 = 4"
    | "n mod 7 = 5" | "n mod 7 = 6"
    by linarith
  then show ?thesis
    by cases (simp_all add: C_locale_def is_ascii_def)
qed

lemmas calendar =
  weekday_def ymd2ord_def days_before_year_def days_before_month_def is_leap_def
  at_noon_def friday_morning_def friday_night_def saturday_midnight_def

lemmas name_parts =
  id_ID_def C_locale_def upper_char_def pad2_def pad4_def digit_def

section \<open>The claims\<close>

text \<open>
  C3. Every input string that contains an underscore parses: it is cut at its first
  underscore only (the part \<open>l\<close> before it contains none, the part \<open>r\<close> behind it may
  contain more), the code is the uppercased left part and the name is the uppercased
  right part with every \<open>-\<close> replaced by a space. Nothing else about the string is
  checked. Uppercased is what \<open>str.upper()\<close> returns: when the part is made of ASCII
  characters, each letter \<open>a\<close> to \<open>z\<close> replaced by its capital and every other character
  kept (so the length stays); otherwise what the platform's Unicode case mapping gives.
\<close>

theorem parse_qr_first_underscore:
  assumes "CHR ''_'' \<in> set qr_data"
  shows "\<exists>l r. qr_data = l @ CHR ''_'' # r \<and> CHR ''_'' \<notin> set l \<and>
           parse_qr pf qr_data =
             Some (upper pf l, upper pf (map (\<lambda>c. if c = CHR ''-'' then CHR '' '' else c) r)) \<and>
           (list_all is_ascii l \<longrightarrow>
              upper pf l =
                map (\<lambda>c. if c \<in> set ''abcdefghijklmnopqrstuvwxyz''
                          then the (map_of (zip ''abcdefghijklmnopqrstuvwxyz''
                                                ''ABCDEFGHIJKLMNOPQRSTUVWXYZ'') c)
                          else c) l) \<and>
           (list_all is_ascii r \<longrightarrow>
              upper pf (map (\<lambda>c. if c = CHR ''-'' then CHR '' '' else c) r) =
                map (\<lambda>c. if c = CHR ''-'' then CHR '' ''
                          else if c \<in> set ''abcdefghijklmnopqrstuvwxyz''
                          then the (map_of (zip ''abcdefghijklmnopqrstuvwxyz''
                                                ''ABCDEFGHIJKLMNOPQRSTUVWXYZ'') c)
                          else c) r) \<and>
           (\<not> list_all is_ascii l \<longrightarrow> upper pf l = str_upper pf l) \<and>
           (\<not> list_all is_ascii r \<longrightarrow>
              upper pf (map (\<lambda>c. if c = CHR ''-'' then CHR '' '' else c) r) =
                str_upper pf (map (\<lambda>c. if c = CHR ''-'' then CHR '' '' else c) r))"
proof -
  let ?cap = "\<lambda>c. if c \<in> set ''abcdefghijklmnopqrstuvwxyz''
      then the (map_of (zip ''abcdefghijklmnopqrstuvwxyz'' ''ABCDEFGHIJKLMNOPQRSTUVWXYZ'') c)
      else c"
  let ?sp = "\<lambda>c. if c = CHR ''-'' then CHR '' '' else c"
  from assms obtain l r where s: "qr_data = l @ CHR ''_'' # r" and n: "CHR ''_'' \<notin> set l"
    by (auto dest: split_list_first)
  have cap: "upper_char c = ?cap c" for c
    by (auto simp: upper_char_def)
  have sp: "list_all is_ascii (map ?sp r) \<longleftrightarrow> list_all is_ascii r"
    by (induction r) (auto simp: is_ascii_def)
  have p: "parse_qr pf qr_data = Some (upper pf l, upper pf (map ?sp r))"
    using parse_qr_split [OF n, of pf r] s by (simp add: replace1_def)
  have ul: "list_all is_ascii l \<longrightarrow> upper pf l = map ?cap l"
    using cap by (simp add: upper_def)
  have ur: "list_all is_ascii r \<longrightarrow>
      upper pf (map ?sp r) = map (\<lambda>c. if c = CHR ''-'' then CHR '' '' else ?cap c) r"
  proof
    assume a: "list_all is_ascii r"
    have "map upper_char (map ?sp r) = map (\<lambda>c. if c = CHR ''-'' then CHR '' '' else ?cap c) r"
      unfolding map_map by (rule map_cong [OF refl]) (auto simp: upper_char_def)
    with a sp show "upper pf (map ?sp r) =
        map (\<lambda>c. if c = CHR ''-'' then CHR '' '' else ?cap c) r"
      by (simp add: upper_def)
  qed
  have nl: "\<not> list_all is_ascii l \<longrightarrow> upper pf l = str_upper pf l"
    by (simp add: upper_def)
  have nr: "\<not> list_all is_ascii r \<longrightarrow> upper pf (map ?sp r) = str_upper pf (map ?sp r)"
    using sp by (simp add: upper_def)
  show ?thesis
    by (rule exI [of _ l], rule exI [of _ r]) (intro conjI s n p ul ur nl nr)
qed

theorem parse_qr_first_underscore_witness:
  "CHR ''_'' \<in> set ''a_b_c-d'' \<and> list_all is_ascii ''a'' \<and> list_all is_ascii ''b_c-d'' \<and>
   parse_qr id_ID ''a_b_c-d'' = Some (''A'', ''B_C D'') \<and>
   CHR ''_'' \<in> set (cafe @ ''_budi-s'') \<and> \<not> list_all is_ascii cafe \<and> list_all is_ascii ''budi-s'' \<and>
   parse_qr id_ID_cafe (cafe @ ''_budi-s'') = Some (CAFE, ''BUDI S'')"
proof -
  have first: "CHR ''_'' \<in> set ''a_b_c-d'' \<and> list_all is_ascii ''a'' \<and>
      list_all is_ascii ''b_c-d'' \<and> parse_qr id_ID ''a_b_c-d'' = Some (''A'', ''B_C D'')"
  proof -
    have h: "CHR ''_'' \<in> set ''a_b_c-d''"
      by simp
    have a: "list_all is_ascii ''a''" "list_all is_ascii ''b_c-d''"
      by (simp_all add: is_ascii_def)
    from parse_qr_first_underscore [OF h, of id_ID]
    obtain l r where s: "''a_b_c-d'' = l @ CHR ''_'' # r" and n: "CHR ''_'' \<notin> set l"
      and p: "parse_qr id_ID ''a_b_c-d'' =
          Some (upper id_ID l, upper id_ID (map (\<lambda>c. if c = CHR ''-'' then CHR '' '' else c) r))"
      and ul: "list_all is_ascii l \<longrightarrow>
          upper id_ID l =
            map (\<lambda>c. if c \<in> set ''abcdefghijklmnopqrstuvwxyz''
                      then the (map_of (zip ''abcdefghijklmnopqrstuvwxyz''
                                            ''ABCDEFGHIJKLMNOPQRSTUVWXYZ'') c)
                      else c) l"
      and ur: "list_all is_ascii r \<longrightarrow>
          upper id_ID (map (\<lambda>c. if c = CHR ''-'' then CHR '' '' else c) r) =
            map (\<lambda>c. if c = CHR ''-'' then CHR '' ''
                      else if c \<in> set ''abcdefghijklmnopqrstuvwxyz''
                      then the (map_of (zip ''abcdefghijklmnopqrstuvwxyz''
                                            ''ABCDEFGHIJKLMNOPQRSTUVWXYZ'') c)
                      else c) r"
      by blast
    have "''a'' @ CHR ''_'' # ''b_c-d'' = l @ CHR ''_'' # r"
      using s by simp
    from first_cut_unique [OF this _ n] have l: "l = ''a''" and r: "r = ''b_c-d''"
      by simp_all
    from ul a(1) have "upper id_ID l = ''A''"
      unfolding l by simp
    moreover from ur a(2) have "upper id_ID (map (\<lambda>c. if c = CHR ''-'' then CHR '' '' else c) r) = ''B_C D''"
      unfolding r by simp
    ultimately show ?thesis
      using h a p by simp
  qed
  have second: "CHR ''_'' \<in> set (cafe @ ''_budi-s'') \<and> \<not> list_all is_ascii cafe \<and>
      list_all is_ascii ''budi-s'' \<and>
      parse_qr id_ID_cafe (cafe @ ''_budi-s'') = Some (CAFE, ''BUDI S'')"
  proof -
    have h: "CHR ''_'' \<in> set (cafe @ ''_budi-s'')"
      by simp
    have a: "\<not> list_all is_ascii cafe" "list_all is_ascii ''budi-s''"
      by (simp_all add: is_ascii_def cafe_def)
    have c: "CHR ''_'' \<notin> set cafe"
      by (simp add: cafe_def)
    from parse_qr_first_underscore [OF h, of id_ID_cafe]
    obtain l r where s: "cafe @ ''_budi-s'' = l @ CHR ''_'' # r" and n: "CHR ''_'' \<notin> set l"
      and p: "parse_qr id_ID_cafe (cafe @ ''_budi-s'') =
          Some (upper id_ID_cafe l,
                upper id_ID_cafe (map (\<lambda>c. if c = CHR ''-'' then CHR '' '' else c) r))"
      and ur: "list_all is_ascii r \<longrightarrow>
          upper id_ID_cafe (map (\<lambda>c. if c = CHR ''-'' then CHR '' '' else c) r) =
            map (\<lambda>c. if c = CHR ''-'' then CHR '' ''
                      else if c \<in> set ''abcdefghijklmnopqrstuvwxyz''
                      then the (map_of (zip ''abcdefghijklmnopqrstuvwxyz''
                                            ''ABCDEFGHIJKLMNOPQRSTUVWXYZ'') c)
                      else c) r"
      and nl: "\<not> list_all is_ascii l \<longrightarrow> upper id_ID_cafe l = str_upper id_ID_cafe l"
      by blast
    have "cafe @ CHR ''_'' # ''budi-s'' = l @ CHR ''_'' # r"
      using s by simp
    from first_cut_unique [OF this c n] have l: "l = cafe" and r: "r = ''budi-s''"
      by simp_all
    from nl a(1) have "upper id_ID_cafe l = CAFE"
      unfolding l by (simp add: id_ID_cafe_def)
    moreover from ur a(2)
    have "upper id_ID_cafe (map (\<lambda>c. if c = CHR ''-'' then CHR '' '' else c) r) = ''BUDI S''"
      unfolding r by simp
    ultimately show ?thesis
      using h a p by simp
  qed
  from first second show ?thesis
    by simp
qed

text \<open>
  C9. The partition name is a function of the platform's weekday names and the instant
  alone. When the weekday name is made of ASCII characters and contains no comma (as
  every weekday name of the two locales of the program), it is the weekday name of the
  date with its letters capitalised, an underscore, and the date as zero-padded
  \<open>DD-MM-YYYY\<close>. Two instants of the same calendar day have the same name; two valid
  instants of different calendar days, with weekday names of ASCII characters, have
  different names.
\<close>

theorem worksheet_name_per_day:
  "(list_all is_ascii (day_name pf (weekday t)) \<and> CHR '','' \<notin> set (day_name pf (weekday t)) \<longrightarrow>
      get_weekly_worksheet_name pf t =
        map upper_char (day_name pf (weekday t)) @ ''_'' @
        pad2 (day t) @ ''-'' @ pad2 (month t) @ ''-'' @ pad4 (year t)) \<and>
   (date_of t = date_of t' \<longrightarrow>
      get_weekly_worksheet_name pf t = get_weekly_worksheet_name pf t') \<and>
   (valid_instant t \<and> valid_instant t' \<and> date_of t \<noteq> date_of t' \<and>
    list_all is_ascii (day_name pf (weekday t)) \<and> list_all is_ascii (day_name pf (weekday t')) \<longrightarrow>
      get_weekly_worksheet_name pf t \<noteq> get_weekly_worksheet_name pf t')"
proof (intro conjI impI)
  assume "list_all is_ascii (day_name pf (weekday t)) \<and> CHR '','' \<notin> set (day_name pf (weekday t))"
  then show "get_weekly_worksheet_name pf t =
      map upper_char (day_name pf (weekday t)) @ ''_'' @
      pad2 (day t) @ ''-'' @ pad2 (month t) @ ''-'' @ pad4 (year t)"
    by (simp add: worksheet_name_plain strftime_dmY_def)
next
  assume "date_of t = date_of t'"
  then show "get_weekly_worksheet_name pf t = get_weekly_worksheet_name pf t'"
    by (rule worksheet_name_same_day)
next
  assume "valid_instant t \<and> valid_instant t' \<and> date_of t \<noteq> date_of t' \<and>
    list_all is_ascii (day_name pf (weekday t)) \<and> list_all is_ascii (day_name pf (weekday t'))"
  then show "get_weekly_worksheet_name pf t \<noteq> get_weekly_worksheet_name pf t'"
    by (simp add: worksheet_name_other_day)
qed

theorem worksheet_name_per_day_witness:
  "list_all is_ascii (day_name id_ID (weekday friday_morning)) \<and>
   CHR '','' \<notin> set (day_name id_ID (weekday friday_morning)) \<and>
   list_all is_ascii (day_name id_ID (weekday saturday_midnight)) \<and>
   date_of friday_morning = date_of friday_night \<and>
   valid_instant friday_morning \<and> valid_instant saturday_midnight \<and>
   date_of friday_morning \<noteq> date_of saturday_midnight \<and>
   get_weekly_worksheet_name id_ID friday_morning = ''JUMAT_24-10-2025'' \<and>
   get_weekly_worksheet_name id_ID friday_night = ''JUMAT_24-10-2025'' \<and>
   get_weekly_worksheet_name id_ID saturday_midnight = ''SABTU_25-10-2025'' \<and>
   get_weekly_worksheet_name id_ID friday_morning \<noteq>
     get_weekly_worksheet_name id_ID saturday_midnight \<and>
   get_weekly_worksheet_name id_ID (at_noon 2025 10 26) = ''MINGGU_26-10-2025'' \<and>
   get_weekly_worksheet_name id_ID (at_noon 2025 10 27) = ''SENIN_27-10-2025'' \<and>
   get_weekly_worksheet_name id_ID (at_noon 2025 10 28) = ''SELASA_28-10-2025'' \<and>
   get_weekly_worksheet_name id_ID (at_noon 2025 10 29) = ''RABU_29-10-2025'' \<and>
   get_weekly_worksheet_name id_ID (at_noon 2025 10 30) = ''KAMIS_30-10-2025'' \<and>
   get_weekly_worksheet_name id_ID (at_noon 2024 2 29) = ''KAMIS_29-02-2024'' \<and>
   get_weekly_worksheet_name id_ID (at_noon 2024 3 1) = ''JUMAT_01-03-2024'' \<and>
   get_weekly_worksheet_name id_ID (at_noon 2000 2 29) = ''SELASA_29-02-2000'' \<and>
   get_weekly_worksheet_name id_ID (at_noon 1900 3 1) = ''KAMIS_01-03-1900'' \<and>
   get_weekly_worksheet_name C_locale saturday_midnight = ''SATURDAY_25-10-2025'' \<and>
   get_weekly_worksheet_name C_locale (at_noon 2025 12 31) = ''WEDNESDAY_31-12-2025''"
proof -
  have h1: "list_all is_ascii (day_name id_ID (weekday friday_morning)) \<and>
      CHR '','' \<notin> set (day_name id_ID (weekday friday_morning))"
    by (rule day_names_id_ID)
  have h2: "date_of friday_morning = date_of friday_night"
    by (simp add: date_of_def friday_morning_def friday_night_def)
  have h3: "valid_instant friday_morning \<and> valid_instant saturday_midnight \<and>
      date_of friday_morning \<noteq> date_of saturday_midnight"
    by (simp add: valid_instant_def date_of_def friday_morning_def saturday_midnight_def)
  have h4: "list_all is_ascii (day_name id_ID (weekday saturday_midnight))"
    using day_names_id_ID [of "weekday saturday_midnight"] by simp
  have fm: "get_weekly_worksheet_name id_ID friday_morning = ''JUMAT_24-10-2025''"
    using worksheet_name_per_day [of id_ID friday_morning friday_night]
    by (simp add: calendar name_parts is_ascii_def)
  have fn: "get_weekly_worksheet_name id_ID friday_night = ''JUMAT_24-10-2025''"
    using worksheet_name_per_day [of id_ID friday_morning friday_night] h2 fm
    by simp
  have sa: "get_weekly_worksheet_name id_ID saturday_midnight = ''SABTU_25-10-2025''"
    using worksheet_name_per_day [of id_ID saturday_midnight saturday_midnight]
    by (simp add: calendar name_parts is_ascii_def)
  have ne: "get_weekly_worksheet_name id_ID friday_morning \<noteq>
      get_weekly_worksheet_name id_ID saturday_midnight"
    using worksheet_name_per_day [of id_ID friday_morning saturday_midnight] h1 h3 h4
    by blast
  have d26: "get_weekly_worksheet_name id_ID (at_noon 2025 10 26) = ''MINGGU_26-10-2025''"
    using worksheet_name_per_day [of id_ID "at_noon 2025 10 26" "at_noon 2025 10 26"]
    by (simp add: calendar name_parts is_ascii_def)
  have d27: "get_weekly_worksheet_name id_ID (at_noon 2025 10 27) = ''SENIN_27-10-2025''"
    using worksheet_name_per_day [of id_ID "at_noon 2025 10 27" "at_noon 2025 10 27"]
    by (simp add: calendar name_parts is_ascii_def)
  have d28: "get_weekly_worksheet_name id_ID (at_noon 2025 10 28) = ''SELASA_28-10-2025''"
    using worksheet_name_per_day [of id_ID "at_noon 2025 10 28" "at_noon 2025 10 28"]
    by (simp add: calendar name_parts is_ascii_def)
  have d29: "get_weekly_worksheet_name id_ID (at_noon 2025 10 29) = ''RABU_29-10-2025''"
    using worksheet_name_per_day [of id_ID "at_noon 2025 10 29" "at_noon 2025 10 29"]
    by (simp add: calendar name_parts is_ascii_def)
  have d30: "get_weekly_worksheet_name id_ID (at_noon 2025 10 30) = ''KAMIS_30-10-2025''"
    using worksheet_name_per_day [of id_ID "at_noon 2025 10 30" "at_noon 2025 10 30"]
    by (simp add: calendar name_parts is_ascii_def)
  have l24: "get_weekly_worksheet_name id_ID (at_noon 2024 2 29) = ''KAMIS_29-02-2024''"
    using worksheet_name_per_day [of id_ID "at_noon 2024 2 29" "at_noon 2024 2 29"]
    by (simp add: calendar name_parts is_ascii_def)
  have m24: "get_weekly_worksheet_name id_ID (at_noon 2024 3 1) = ''JUMAT_01-03-2024''"
    using worksheet_name_per_day [of id_ID "at_noon 2024 3 1" "at_noon 2024 3 1"]
    by (simp add: calendar name_parts is_ascii_def)
  have l00: "get_weekly_worksheet_name id_ID (at_noon 2000 2 29) = ''SELASA_29-02-2000''"
    using worksheet_name_per_day [of id_ID "at_noon 2000 2 29" "at_noon 2000 2 29"]
    by (simp add: calendar name_parts is_ascii_def)
  have m19: "get_weekly_worksheet_name id_ID (at_noon 1900 3 1) = ''KAMIS_01-03-1900''"
    using worksheet_name_per_day [of id_ID "at_noon 1900 3 1" "at_noon 1900 3 1"]
    by (simp add: calendar name_parts is_ascii_def)
  have cs: "get_weekly_worksheet_name C_locale saturday_midnight = ''SATURDAY_25-10-2025''"
    using worksheet_name_per_day [of C_locale saturday_midnight saturday_midnight]
    by (simp add: calendar name_parts is_ascii_def)
  have cw: "get_weekly_worksheet_name C_locale (at_noon 2025 12 31) = ''WEDNESDAY_31-12-2025''"
    using worksheet_name_per_day [of C_locale "at_noon 2025 12 31" "at_noon 2025 12 31"]
    by (simp add: calendar name_parts is_ascii_def)
  show ?thesis
    by (intro conjI h1 [THEN conjunct1] h1 [THEN conjunct2] h4 h2 h3 [THEN conjunct1]
        h3 [THEN conjunct2, THEN conjunct1] h3 [THEN conjunct2, THEN conjunct2]
        fm fn sa ne d26 d27 d28 d29 d30 l24 m24 l00 m19 cs cw)
qed

text \<open>
  C5. Whenever the partition load returns the empty table together with an error text,
  the scan returns \<open>CONNECTION_ERROR\<close> for every payload: the payload is not parsed, the
  world is the one the load left (nothing appended, nothing saved) and the result has
  neither \<open>kode\<close> nor \<open>recent_attendance\<close>. Without credentials at start-up the
  client is \<open>None\<close> and this is what every scan returns.
\<close>

theorem connection_error_immediately:
  "(get_attendance_dataframe gc pf (t_load ck) w = (Inr ([], Str s), w1) \<longrightarrow>
      process_qrcode qr_data gc pf ck w =
        (Inr \<lparr>nama = ''Gagal Koneksi GSheets'', kode = None, status = CONNECTION_ERROR,
               waktu = strftime_HMS (t_scan ck), recent_attendance = None\<rparr>, w1)) \<and>
   process_qrcode qr_data (get_gspread_client connect None) pf ck w =
     (Inr \<lparr>nama = ''Gagal Koneksi GSheets'', kode = None, status = CONNECTION_ERROR,
            waktu = strftime_HMS (t_scan ck), recent_attendance = None\<rparr>, w)"
proof (intro conjI impI)
  assume "get_attendance_dataframe gc pf (t_load ck) w = (Inr ([], Str s), w1)"
  then show "process_qrcode qr_data gc pf ck w =
      (Inr \<lparr>nama = ''Gagal Koneksi GSheets'', kode = None, status = CONNECTION_ERROR,
             waktu = strftime_HMS (t_scan ck), recent_attendance = None\<rparr>, w1)"
    by (rule process_connection_error)
next
  have "get_attendance_dataframe None pf (t_load ck) w = (Inr ([], Str ''Gagal koneksi GSheets''), w)"
    by (rule load_no_client)
  then show "process_qrcode qr_data (get_gspread_client connect None) pf ck w =
      (Inr \<lparr>nama = ''Gagal Koneksi GSheets'', kode = None, status = CONNECTION_ERROR,
             waktu = strftime_HMS (t_scan ck), recent_attendance = None\<rparr>, w)"
    by (simp add: get_gspread_client_def process_connection_error)
qed

theorem connection_error_immediately_witness:
  "get_attendance_dataframe None id_ID (t_load ck_friday) w_budi =
     (Inr ([], Str ''Gagal koneksi GSheets''), w_budi) \<and>
   process_qrcode ''A1_BUDI-SANTOSO'' None id_ID ck_friday w_budi =
     (Inr \<lparr>nama = ''Gagal Koneksi GSheets'', kode = None, status = CONNECTION_ERROR,
            waktu = ''08:05:03'', recent_attendance = None\<rparr>, w_budi)"
proof -
  have h: "get_attendance_dataframe None id_ID (t_load ck_friday) w_budi =
      (Inr ([], Str ''Gagal koneksi GSheets''), w_budi)"
    by (rule load_no_client)
  have t: "strftime_HMS (t_scan ck_friday) = ''08:05:03''"
    by (simp add: ck_friday_def HMS_friday)
  show ?thesis
    using connection_error_immediately
      [of None id_ID ck_friday w_budi "''Gagal koneksi GSheets''" w_budi "''A1_BUDI-SANTOSO''"] h t
    by simp
qed

text \<open>
  C7 on the code. The spreadsheet \<open>Rekap Absensi Tapak Suci Sidayu\<close> does not exist:
  \<open>gc.open\<close> raises \<open>SpreadsheetNotFound\<close>, the clause \<open>except gspread.WorksheetNotFound\<close>
  does not catch it, and the exception leaves \<open>get_attendance_dataframe\<close> and
  \<open>process_qrcode\<close>. No empty table with the error text \<open>Sheet Gagal\<close> is returned.
\<close>

theorem load_store_absent_raises:
  "get_attendance_dataframe (Some Client) id_ID friday_morning w_no_store =
     (Inl SpreadsheetNotFound, w_no_store) \<and>
   process_qrcode ''A1_BUDI-SANTOSO'' (Some Client) id_ID ck_friday w_no_store =
     (Inl SpreadsheetNotFound, w_no_store)"
proof -
  have "get_attendance_dataframe (Some Client) id_ID friday_morning w_no_store =
      (Inl SpreadsheetNotFound, w_no_store)"
    by (rule load_store_absent) (simp_all add: w_no_store_def)
  then show ?thesis
    by (simp add: process_raises ck_friday_def)
qed

text \<open>
  C4 as stated fails: without a client the load returns the error sentinel and the scan
  of a payload without underscore returns \<open>CONNECTION_ERROR\<close>, not \<open>INVALID_FORMAT\<close>.
\<close>

theorem invalid_format_counterexample:
  "CHR ''_'' \<notin> set ''NOSEPARATORHERE'' \<and>
   process_qrcode ''NOSEPARATORHERE'' None id_ID ck_friday w_fresh =
     (Inr \<lparr>nama = ''Gagal Koneksi GSheets'', kode = None, status = CONNECTION_ERROR,
            waktu = ''08:05:03'', recent_attendance = None\<rparr>, w_fresh)"
proof -
  have "get_attendance_dataframe None id_ID (t_load ck_friday) w_fresh =
      (Inr ([], Str ''Gagal koneksi GSheets''), w_fresh)"
    by (rule load_no_client)
  then have "process_qrcode ''NOSEPARATORHERE'' None id_ID ck_friday w_fresh =
      (Inr \<lparr>nama = ''Gagal Koneksi GSheets'', kode = None, status = CONNECTION_ERROR,
             waktu = strftime_HMS (t_scan ck_friday), recent_attendance = None\<rparr>, w_fresh)"
    by (rule process_connection_error)
  then show ?thesis
    by (simp add: ck_friday_def HMS_friday)
qed

text \<open>
  C4, amended. Whenever the partition load returns a table that is not the error
  sentinel, the scan of a payload without underscore returns \<open>INVALID_FORMAT\<close> with
  neither \<open>kode\<close> nor \<open>recent_attendance\<close>, and the world is the one the load left: no
  row is appended and no save is invoked.
\<close>

theorem invalid_format_no_mutation:
  assumes "get_attendance_dataframe gc pf (t_load ck) w = (Inr (df, sh), w1)"
    and "\<not> (df = [] \<and> is_str sh)"
    and "CHR ''_'' \<notin> set qr_data"
  shows "process_qrcode qr_data gc pf ck w =
     (Inr \<lparr>nama = ''Format QR Tidak Valid'', kode = None, status = INVALID_FORMAT,
            waktu = strftime_HMS (t_scan ck), recent_attendance = None\<rparr>, w1)"
  using assms by (simp add: process_invalid parse_qr_none)

theorem invalid_format_no_mutation_witness:
  "get_attendance_dataframe (Some Client) id_ID (t_load ck_night) w_budi =
     (Inr ([budi], Spreadsheet SHEET_TITLE), w_budi) \<and>
   \<not> ([budi] = [] \<and> is_str (Spreadsheet SHEET_TITLE)) \<and>
   CHR ''_'' \<notin> set ''NOSEPARATORHERE'' \<and>
   process_qrcode ''NOSEPARATORHERE'' (Some Client) id_ID ck_night w_budi =
     (Inr \<lparr>nama = ''Format QR Tidak Valid'', kode = None, status = INVALID_FORMAT,
            waktu = ''23:59:59'', recent_attendance = None\<rparr>, w_budi)"
proof -
  have h1: "get_attendance_dataframe (Some Client) id_ID (t_load ck_night) w_budi =
      (Inr ([budi], Spreadsheet SHEET_TITLE), w_budi)"
    using load_budi by (simp add: ck_night_def)
  have h2: "\<not> ([budi] = [] \<and> is_str (Spreadsheet SHEET_TITLE))"
    by simp
  have h3: "CHR ''_'' \<notin> set ''NOSEPARATORHERE''"
    by simp
  have t: "strftime_HMS (t_scan ck_night) = ''23:59:59''"
    by (simp add: ck_night_def HMS_night)
  show ?thesis
    using invalid_format_no_mutation [OF h1 h2 h3] h1 t by simp
qed

text \<open>
  C2 as stated fails: without a client the load returns the empty table with an error
  text; the code \<open>A1\<close> of the valid payload is absent from its \<open>Kode\<close> column, yet the
  scan returns \<open>CONNECTION_ERROR\<close> and leaves the world as it is.
\<close>

theorem absent_code_counterexample:
  "parse_qr id_ID ''A1_BUDI-SANTOSO'' = Some (''A1'', ''BUDI SANTOSO'') \<and>
   get_attendance_dataframe None id_ID (t_load ck_friday) w_fresh =
     (Inr ([], Str ''Gagal koneksi GSheets''), w_fresh) \<and>
   ''A1'' \<notin> set (map Kode []) \<and>
   process_qrcode ''A1_BUDI-SANTOSO'' None id_ID ck_friday w_fresh =
     (Inr \<lparr>nama = ''Gagal Koneksi GSheets'', kode = None, status = CONNECTION_ERROR,
            waktu = ''08:05:03'', recent_attendance = None\<rparr>, w_fresh)"
proof -
  have l: "get_attendance_dataframe None id_ID (t_load ck_friday) w_fresh =
      (Inr ([], Str ''Gagal koneksi GSheets''), w_fresh)"
    by (rule load_no_client)
  then have "process_qrcode ''A1_BUDI-SANTOSO'' None id_ID ck_friday w_fresh =
      (Inr \<lparr>nama = ''Gagal Koneksi GSheets'', kode = None, status = CONNECTION_ERROR,
             waktu = strftime_HMS (t_scan ck_friday), recent_attendance = None\<rparr>, w_fresh)"
    by (rule process_connection_error)
  with l show ?thesis
    by (simp add: ck_friday_def HMS_friday parse_budi)
qed

text \<open>
  C2, amended. Whenever the partition load returns a table that is not the error
  sentinel, for every valid payload whose code is absent from the table's \<open>Kode\<close> column
  the scan appends exactly one row (the uppercased code, the parsed name, the current
  \<open>HH:MM:SS\<close> time), invokes the save on the table with that row, and returns \<open>SUCCESS\<close>
  with \<open>waktu\<close> the time of the new row; \<open>recent_attendance\<close> is taken from the table
  with the new row.
\<close>

theorem absent_code_appended:
  assumes "get_attendance_dataframe gc pf (t_load ck) w = (Inr (df, sh), w1)"
    and "\<not> (df = [] \<and> is_str sh)"
    and "parse_qr pf qr_data = Some (k, n)"
    and "k \<notin> set (map Kode df)"
  shows "process_qrcode qr_data gc pf ck w =
     (Inr \<lparr>nama = n, kode = Some k, status = SUCCESS, waktu = strftime_HMS (t_scan ck),
            recent_attendance =
              Some (recent (df @ [\<lparr>Kode = k, Nama = n, Waktu = strftime_HMS (t_scan ck)\<rparr>]))\<rparr>,
      save_attendance_dataframe
        (df @ [\<lparr>Kode = k, Nama = n, Waktu = strftime_HMS (t_scan ck)\<rparr>]) sh pf (t_save ck) w1)"
  using assms by (rule process_success)

theorem absent_code_appended_witness:
  "fst (process_qrcode ''A1_BUDI-SANTOSO'' (Some Client) id_ID ck_friday w_fresh) =
     Inr \<lparr>nama = ''BUDI SANTOSO'', kode = Some ''A1'', status = SUCCESS, waktu = ''08:05:03'',
          recent_attendance = Some [[(''Nama'', ''BUDI SANTOSO''), (''Waktu'', ''08:05:03'')]]\<rparr> \<and>
   get_rows (SHEET_TITLE, ''JUMAT_24-10-2025'')
     (snd (process_qrcode ''A1_BUDI-SANTOSO'' (Some Client) id_ID ck_friday w_fresh)) =
     [\<lparr>Kode = ''A1'', Nama = ''BUDI SANTOSO'', Waktu = ''08:05:03''\<rparr>]"
proof -
  let ?w1 = "print (WorksheetCreated ''JUMAT_24-10-2025'')
      (put_rows (SHEET_TITLE, ''JUMAT_24-10-2025'') [] w_fresh)"
  have h1: "get_attendance_dataframe (Some Client) id_ID (t_load ck_friday) w_fresh =
      (Inr ([], Spreadsheet SHEET_TITLE), ?w1)"
    using load_fresh by (simp add: ck_friday_def)
  have h2: "\<not> ([] = ([]::dataframe) \<and> is_str (Spreadsheet SHEET_TITLE))"
    by simp
  have h4: "''A1'' \<notin> set (map Kode [])"
    by simp
  have t: "strftime_HMS (t_scan ck_friday) = ''08:05:03''" "t_save ck_friday = friday_morning"
    by (simp_all add: ck_friday_def HMS_friday)
  have s: "save_attendance_dataframe [budi] (Spreadsheet SHEET_TITLE) id_ID friday_morning ?w1 =
      print (Saved SHEET_TITLE ''JUMAT_24-10-2025'')
        (put_rows (SHEET_TITLE, ''JUMAT_24-10-2025'') [budi] ?w1)"
    using save_ok [of ?w1 "[''JUMAT_24-10-2025'' \<mapsto> []]" id_ID friday_morning "[]" "[budi]"]
      world_after_load_fresh
    by (simp add: name_friday)
  have g: "get_rows (SHEET_TITLE, ''JUMAT_24-10-2025'')
      (print (Saved SHEET_TITLE ''JUMAT_24-10-2025'')
        (put_rows (SHEET_TITLE, ''JUMAT_24-10-2025'') [budi] ?w1)) = [budi]"
    using world_after_load_fresh by (simp add: get_rows_def print_def put_rows_def)
  show ?thesis
    using absent_code_appended [OF h1 h2 parse_budi h4] t s g recent_budi
    by (simp add: budi_def)
qed

text \<open>
  C10. The table contains a row with code \<open>K\<close> (here \<open>upper pf c\<close>, the code of the payload
  \<open>c_N2\<close>) and stored name \<open>N1\<close>. The scan returns \<open>REGISTERED\<close> with \<open>nama\<close> the name
  parsed from the payload, \<open>uppercase(N2 with - replaced by space)\<close>, whatever \<open>N1\<close> is,
  and \<open>waktu\<close> the stored time of the first row with that code. The world stays the one
  the load left and \<open>recent_attendance\<close> is taken from the unchanged table: the stored
  row keeps its name \<open>N1\<close>.
\<close>

theorem registered_returns_scanned_name:
  assumes "get_attendance_dataframe gc pf (t_load ck) w = (Inr (df, sh), w1)"
    and "\<lparr>Kode = upper pf c, Nama = N1, Waktu = T\<rparr> \<in> set df"
    and "CHR ''_'' \<notin> set c"
  shows "\<exists>pre r post. df = pre @ r # post \<and> Kode r = upper pf c \<and> upper pf c \<notin> set (map Kode pre) \<and>
     process_qrcode (c @ CHR ''_'' # N2) gc pf ck w =
       (Inr \<lparr>nama = upper pf (map (\<lambda>x. if x = CHR ''-'' then CHR '' '' else x) N2),
              kode = Some (upper pf c), status = REGISTERED, waktu = Waktu r,
              recent_attendance = Some (recent df)\<rparr>, w1)"
proof -
  from assms(2) have "Kode \<lparr>Kode = upper pf c, Nama = N1, Waktu = T\<rparr> \<in> Kode ` set df"
    by (rule imageI)
  then have "upper pf c \<in> set (map Kode df)"
    by simp
  then obtain pre r post where d: "df = pre @ r # post" "Kode r = upper pf c"
      "upper pf c \<notin> set (map Kode pre)"
    using first_match by blast
  have p: "parse_qr pf (c @ CHR ''_'' # N2) =
      Some (upper pf c, upper pf (map (\<lambda>x. if x = CHR ''-'' then CHR '' '' else x) N2))"
    using parse_qr_split [OF assms(3), of pf N2] by (simp add: replace1_def)
  have "process_qrcode (c @ CHR ''_'' # N2) gc pf ck w =
      (Inr \<lparr>nama = upper pf (map (\<lambda>x. if x = CHR ''-'' then CHR '' '' else x) N2),
             kode = Some (upper pf c), status = REGISTERED, waktu = Waktu r,
             recent_attendance = Some (recent (pre @ r # post))\<rparr>, w1)"
    using assms(1) p d(2,3) unfolding d(1) by (rule process_registered)
  with d show ?thesis
    by blast
qed

theorem registered_returns_scanned_name_witness:
  "get_attendance_dataframe (Some Client) id_ID (t_load ck_night) w_budi =
     (Inr ([budi], Spreadsheet SHEET_TITLE), w_budi) \<and>
   \<lparr>Kode = upper id_ID ''a1'', Nama = ''BUDI SANTOSO'', Waktu = ''08:05:03''\<rparr> \<in> set [budi] \<and>
   CHR ''_'' \<notin> set ''a1'' \<and>
   process_qrcode ''a1_siti-aminah'' (Some Client) id_ID ck_night w_budi =
     (Inr \<lparr>nama = ''SITI AMINAH'', kode = Some ''A1'', status = REGISTERED,
            waktu = ''08:05:03'',
            recent_attendance = Some [[(''Nama'', ''BUDI SANTOSO''), (''Waktu'', ''08:05:03'')]]\<rparr>,
      w_budi)"
proof -
  have h1: "get_attendance_dataframe (Some Client) id_ID (t_load ck_night) w_budi =
      (Inr ([budi], Spreadsheet SHEET_TITLE), w_budi)"
    using load_budi by (simp add: ck_night_def)
  have u: "upper id_ID ''a1'' = ''A1''"
    by (simp add: upper_def is_ascii_def upper_char_def)
  have h2: "\<lparr>Kode = upper id_ID ''a1'', Nama = ''BUDI SANTOSO'', Waktu = ''08:05:03''\<rparr> \<in> set [budi]"
    by (simp add: u budi_def)
  have h3: "CHR ''_'' \<notin> set ''a1''"
    by simp
  have n: "upper id_ID ''siti aminah'' = ''SITI AMINAH''"
    by (simp add: upper_def is_ascii_def upper_char_def)
  from registered_returns_scanned_name [OF h1 h2 h3, of "''siti-aminah''"]
  obtain pre r post where d: "[budi] = pre @ r # post"
    and p: "process_qrcode (''a1'' @ CHR ''_'' # ''siti-aminah'') (Some Client) id_ID ck_night w_budi =
       (Inr \<lparr>nama = upper id_ID (map (\<lambda>x. if x = CHR ''-'' then CHR '' '' else x) ''siti-aminah''),
              kode = Some (upper id_ID ''a1''), status = REGISTERED, waktu = Waktu r,
              recent_attendance = Some (recent [budi])\<rparr>, w_budi)"
    by blast
  from d have "r = budi"
    by (simp add: Cons_eq_append_conv)
  then have "Waktu r = ''08:05:03''"
    by (simp add: budi_def)
  with p h1 h2 h3 show ?thesis
    by (simp add: u n recent_budi)
qed

text \<open>
  C6. Whatever the scan returns: on \<open>CONNECTION_ERROR\<close> and \<open>INVALID_FORMAT\<close> the result
  has no \<open>recent_attendance\<close>; on \<open>SUCCESS\<close> and \<open>REGISTERED\<close> it has one, of length at
  most 10, each entry with exactly the keys \<open>Nama\<close> and \<open>Waktu\<close>: the first 10 rows, so
  projected, of a rearrangement sorted by \<open>Waktu\<close> in descending string order of the
  table after this scan (the loaded table, with the new row of the result on \<open>SUCCESS\<close>).
\<close>

theorem recent_attendance_top10:
  assumes "process_qrcode qr_data gc pf ck w = (Inr res, w')"
  shows "((status res = CONNECTION_ERROR \<or> status res = INVALID_FORMAT) \<longrightarrow>
            recent_attendance res = None) \<and>
         ((status res = SUCCESS \<or> status res = REGISTERED) \<longrightarrow>
            (\<exists>df sh w1 srt l.
               get_attendance_dataframe gc pf (t_load ck) w = (Inr (df, sh), w1) \<and>
               mset srt =
                 mset (if status res = SUCCESS
                       then df @ [\<lparr>Kode = the (kode res), Nama = nama res, Waktu = waktu res\<rparr>]
                       else df) \<and>
               sorted_wrt (\<lambda>a b. Waktu b \<le> Waktu a) srt \<and>
               l = map (\<lambda>r. [(''Nama'', Nama r), (''Waktu'', Waktu r)]) (take 10 srt) \<and>
               recent_attendance res = Some l \<and> length l \<le> 10))"
proof -
  from process_Inr_cases [OF assms] obtain df sh w1 where
    l: "get_attendance_dataframe gc pf (t_load ck) w = (Inr (df, sh), w1)" and
    c: "(status res = CONNECTION_ERROR \<and> recent_attendance res = None) \<or>
      (status res = INVALID_FORMAT \<and> recent_attendance res = None) \<or>
      (status res = REGISTERED \<and> recent_attendance res = Some (recent df)) \<or>
      (status res = SUCCESS \<and>
       recent_attendance res =
         Some (recent (df @ [\<lparr>Kode = the (kode res), Nama = nama res, Waktu = waktu res\<rparr>])))"
    by blast
  let ?tbl = "if status res = SUCCESS
      then df @ [\<lparr>Kode = the (kode res), Nama = nama res, Waktu = waktu res\<rparr>] else df"
  from recent_as_sorted [of ?tbl] obtain srt where
    s: "mset srt = mset ?tbl" "sorted_wrt (\<lambda>a b. Waktu b \<le> Waktu a) srt"
      "recent ?tbl = map (\<lambda>r. [(''Nama'', Nama r), (''Waktu'', Waktu r)]) (take 10 srt)"
    by blast
  have none: "(status res = CONNECTION_ERROR \<or> status res = INVALID_FORMAT) \<longrightarrow>
      recent_attendance res = None"
    using c by auto
  have some: "(status res = SUCCESS \<or> status res = REGISTERED) \<longrightarrow>
      recent_attendance res = Some (recent ?tbl)"
    using c by auto
  have len: "length (map (\<lambda>r. [(''Nama'', Nama r), (''Waktu'', Waktu r)]) (take 10 srt)) \<le> 10"
    by simp
  show ?thesis
  proof (intro conjI impI)
    assume "status res = CONNECTION_ERROR \<or> status res = INVALID_FORMAT"
    with none show "recent_attendance res = None"
      by simp
  next
    assume "status res = SUCCESS \<or> status res = REGISTERED"
    with some have "recent_attendance res = Some (recent ?tbl)"
      by simp
    then have r: "recent_attendance res =
        Some (map (\<lambda>r. [(''Nama'', Nama r), (''Waktu'', Waktu r)]) (take 10 srt))"
      by (simp only: s(3))
    show "\<exists>df sh w1 srt l.
        get_attendance_dataframe gc pf (t_load ck) w = (Inr (df, sh), w1) \<and>
        mset srt =
          mset (if status res = SUCCESS
                then df @ [\<lparr>Kode = the (kode res), Nama = nama res, Waktu = waktu res\<rparr>]
                else df) \<and>
        sorted_wrt (\<lambda>a b. Waktu b \<le> Waktu a) srt \<and>
        l = map (\<lambda>r. [(''Nama'', Nama r), (''Waktu'', Waktu r)]) (take 10 srt) \<and>
        recent_attendance res = Some l \<and> length l \<le> 10"
      by (rule exI [of _ df], rule exI [of _ sh], rule exI [of _ w1], rule exI [of _ srt],
          rule exI [of _ "map (\<lambda>r. [(''Nama'', Nama r), (''Waktu'', Waktu r)]) (take 10 srt)"])
        (intro conjI l s(1) s(2) refl r len)
  qed
qed

theorem recent_attendance_top10_witness:
  "length class_rows = 11 \<and>
   \<not> sorted_wrt (\<lambda>a b. Waktu b \<le> Waktu a) class_rows \<and>
   process_qrcode ''c7_citra-dewi'' (Some Client) id_ID ck_friday w_class =
     (Inr \<lparr>nama = ''CITRA DEWI'', kode = Some ''C7'', status = SUCCESS, waktu = ''08:05:03'',
            recent_attendance = Some class_top10\<rparr>,
      print (Saved SHEET_TITLE ''JUMAT_24-10-2025'')
        (put_rows (SHEET_TITLE, ''JUMAT_24-10-2025'')
           (class_rows @ [\<lparr>Kode = ''C7'', Nama = ''CITRA DEWI'', Waktu = ''08:05:03''\<rparr>]) w_class)) \<and>
   (\<exists>srt. mset srt =
        mset (class_rows @ [\<lparr>Kode = ''C7'', Nama = ''CITRA DEWI'', Waktu = ''08:05:03''\<rparr>]) \<and>
      sorted_wrt (\<lambda>a b. Waktu b \<le> Waktu a) srt \<and>
      class_top10 = map (\<lambda>r. [(''Nama'', Nama r), (''Waktu'', Waktu r)]) (take 10 srt)) \<and>
   length class_top10 = 10 \<and>
   class_top10 =
     [[(''Nama'', ''DODI''), (''Waktu'', ''09:00:00'')],
      [(''Nama'', ''GITA''), (''Waktu'', ''08:30:00'')],
      [(''Nama'', ''CITRA DEWI''), (''Waktu'', ''08:05:03'')],
      [(''Nama'', ''JOKO''), (''Waktu'', ''08:00:00'')],
      [(''Nama'', ''BAYU''), (''Waktu'', ''07:50:00'')],
      [(''Nama'', ''KIKI''), (''Waktu'', ''07:45:00'')],
      [(''Nama'', ''EKA''), (''Waktu'', ''07:40:00'')],
      [(''Nama'', ''HADI''), (''Waktu'', ''07:30:00'')],
      [(''Nama'', ''CICI''), (''Waktu'', ''07:20:00'')],
      [(''Nama'', ''ANI''), (''Waktu'', ''07:10:00'')]]"
proof -
  have n: "length class_rows = 11"
    by (simp add: class_rows_def)
  have u: "\<not> sorted_wrt (\<lambda>a b. Waktu b \<le> Waktu a) class_rows"
    by (simp add: class_rows_def)
  have c: "citra = \<lparr>Kode = ''C7'', Nama = ''CITRA DEWI'', Waktu = ''08:05:03''\<rparr>"
    by (simp add: citra_def)
  have p: "process_qrcode ''c7_citra-dewi'' (Some Client) id_ID ck_friday w_class =
      (Inr \<lparr>nama = ''CITRA DEWI'', kode = Some ''C7'', status = SUCCESS, waktu = ''08:05:03'',
             recent_attendance = Some class_top10\<rparr>,
       print (Saved SHEET_TITLE ''JUMAT_24-10-2025'')
         (put_rows (SHEET_TITLE, ''JUMAT_24-10-2025'')
            (class_rows @ [\<lparr>Kode = ''C7'', Nama = ''CITRA DEWI'', Waktu = ''08:05:03''\<rparr>]) w_class))"
    using scan_class by (simp only: c)
  have l: "get_attendance_dataframe (Some Client) id_ID (t_load ck_friday) w_class =
      (Inr (class_rows, Spreadsheet SHEET_TITLE), w_class)"
    using load_class by (simp add: ck_friday_def)
  have e: "\<exists>srt. mset srt =
        mset (class_rows @ [\<lparr>Kode = ''C7'', Nama = ''CITRA DEWI'', Waktu = ''08:05:03''\<rparr>]) \<and>
      sorted_wrt (\<lambda>a b. Waktu b \<le> Waktu a) srt \<and>
      class_top10 = map (\<lambda>r. [(''Nama'', Nama r), (''Waktu'', Waktu r)]) (take 10 srt)"
    using recent_attendance_top10 [OF p] l by auto
  have t: "length class_top10 = 10"
    by (simp add: class_top10_def)
  show ?thesis
    by (intro conjI n u p e t class_top10_def)
qed

text \<open>
  C8. The scan appends a new row and the write raises: whatever exception \<open>e\<close> leaves the
  body of \<open>save_attendance_dataframe\<close> is caught there and printed, nothing is raised,
  the spreadsheets are as they were before the write, and the scan still returns
  \<open>SUCCESS\<close> with the new row in \<open>recent_attendance\<close>. The result has no other status
  for a failed write.
\<close>

theorem write_failure_swallowed:
  assumes "get_attendance_dataframe gc pf (t_load ck) w = (Inr (df, sh), w1)"
    and "\<not> (df = [] \<and> is_str sh)"
    and "parse_qr pf qr_data = Some (k, n)"
    and "k \<notin> set (map Kode df)"
    and "save_body (df @ [\<lparr>Kode = k, Nama = n, Waktu = strftime_HMS (t_scan ck)\<rparr>]) sh
           (get_weekly_worksheet_name pf (t_save ck)) w1 = (Inl e, w2)"
  shows "process_qrcode qr_data gc pf ck w =
     (Inr \<lparr>nama = n, kode = Some k, status = SUCCESS, waktu = strftime_HMS (t_scan ck),
            recent_attendance =
              Some (recent (df @ [\<lparr>Kode = k, Nama = n, Waktu = strftime_HMS (t_scan ck)\<rparr>]))\<rparr>,
      print (SaveFailed e) w2) \<and>
     drive (print (SaveFailed e) w2) = drive w1 \<and>
     stdout (print (SaveFailed e) w2) = stdout w2 @ [SaveFailed e]"
proof -
  have "save_attendance_dataframe
      (df @ [\<lparr>Kode = k, Nama = n, Waktu = strftime_HMS (t_scan ck)\<rparr>]) sh pf (t_save ck) w1 =
      print (SaveFailed e) w2"
    using assms(5) by (rule save_failed)
  moreover have "drive w2 = drive w1"
    using assms(5) by (rule save_body_failed_drive)
  ultimately show ?thesis
    using process_success [OF assms(1-4)] by (simp add: print_def)
qed

theorem write_failure_swallowed_witness:
  "fst (process_qrcode ''A1_BUDI-SANTOSO'' (Some Client) id_ID ck_friday w_write_fails) =
     Inr \<lparr>nama = ''BUDI SANTOSO'', kode = Some ''A1'', status = SUCCESS, waktu = ''08:05:03'',
          recent_attendance = Some [[(''Nama'', ''BUDI SANTOSO''), (''Waktu'', ''08:05:03'')]]\<rparr> \<and>
   stdout (snd (process_qrcode ''A1_BUDI-SANTOSO'' (Some Client) id_ID ck_friday w_write_fails)) =
     [SaveFailed APIError] \<and>
   get_rows (SHEET_TITLE, ''JUMAT_24-10-2025'')
     (snd (process_qrcode ''A1_BUDI-SANTOSO'' (Some Client) id_ID ck_friday w_write_fails)) = []"
proof -
  have t: "strftime_HMS (t_scan ck_friday) = ''08:05:03''" "t_save ck_friday = friday_morning"
    by (simp_all add: ck_friday_def HMS_friday)
  have h1: "get_attendance_dataframe (Some Client) id_ID (t_load ck_friday) w_write_fails =
      (Inr ([], Spreadsheet SHEET_TITLE), w_write_fails\<lparr>faults := [False, True]\<rparr>)"
    using load_write_fails by (simp add: ck_friday_def)
  have h2: "\<not> ([] = ([]::dataframe) \<and> is_str (Spreadsheet SHEET_TITLE))"
    by simp
  have h4: "''A1'' \<notin> set (map Kode [])"
    by simp
  have h5: "save_body
      ([] @ [\<lparr>Kode = ''A1'', Nama = ''BUDI SANTOSO'', Waktu = strftime_HMS (t_scan ck_friday)\<rparr>])
      (Spreadsheet SHEET_TITLE) (get_weekly_worksheet_name id_ID (t_save ck_friday))
      (w_write_fails\<lparr>faults := [False, True]\<rparr>) =
      (Inl APIError, w_write_fails\<lparr>faults := []\<rparr>)"
    using save_body_write_fails by (simp add: t name_friday budi_def)
  have g: "get_rows (SHEET_TITLE, ''JUMAT_24-10-2025'')
      (print (SaveFailed APIError) (w_write_fails\<lparr>faults := []\<rparr>)) = []"
    "stdout (w_write_fails\<lparr>faults := []\<rparr>) = []"
    by (simp_all add: get_rows_def print_def w_write_fails_def)
  show ?thesis
    using write_failure_swallowed [OF h1 h2 parse_budi h4 h5] t g recent_budi
    by (simp add: budi_def)
qed

text \<open>
  C1, amended. The partition of the day does not yet contain the code of the valid
  payload, no remote call fails in transport, and both scans and the save fall on one
  calendar day. Then the first scan returns \<open>SUCCESS\<close>, the second, on the world the
  first one left, returns \<open>REGISTERED\<close> with the \<open>waktu\<close> of the first (the stored time,
  not the time of the second scan), and afterwards the partition holds exactly one row
  with that code.
\<close>

theorem resubmit_registered:
  assumes f: "faults w = []" and d: "drive w SHEET_TITLE = Some ss"
    and p: "parse_qr pf qr_data = Some (k, n)"
    and day1: "date_of (t_save c1) = date_of (t_load c1)"
    and day2: "date_of (t_load c2) = date_of (t_load c1)"
    and new: "k \<notin> set (map Kode
        (get_rows (SHEET_TITLE, get_weekly_worksheet_name pf (t_load c1)) w))"
  shows "\<exists>r1 w1 r2 w2.
     process_qrcode qr_data (Some c) pf c1 w = (Inr r1, w1) \<and> status r1 = SUCCESS \<and>
     process_qrcode qr_data (Some c) pf c2 w1 = (Inr r2, w2) \<and> status r2 = REGISTERED \<and>
     waktu r2 = waktu r1 \<and> waktu r1 = strftime_HMS (t_scan c1) \<and>
     length (filter (\<lambda>r. Kode r = k)
       (get_rows (SHEET_TITLE, get_weekly_worksheet_name pf (t_load c1)) w2)) = 1"
proof -
  let ?name = "get_weekly_worksheet_name pf (t_load c1)"
  let ?df = "get_rows (SHEET_TITLE, ?name) w"
  let ?new = "\<lparr>Kode = k, Nama = n, Waktu = strftime_HMS (t_scan c1)\<rparr>"
  from load_ok [OF f d, of c pf "t_load c1"] obtain wa ssa where
    la: "get_attendance_dataframe (Some c) pf (t_load c1) w =
      (Inr (?df, Spreadsheet SHEET_TITLE), wa)"
    and fa: "faults wa = []" and da: "drive wa SHEET_TITLE = Some ssa"
    and sa: "ssa ?name = Some ?df"
    by blast
  have n1: "get_weekly_worksheet_name pf (t_save c1) = ?name"
    using day1 by (rule worksheet_name_same_day)
  have n2: "get_weekly_worksheet_name pf (t_load c2) = ?name"
    using day2 by (rule worksheet_name_same_day)
  have ns: "\<not> (?df = [] \<and> is_str (Spreadsheet SHEET_TITLE))"
    by simp
  let ?w1 = "print (Saved SHEET_TITLE ?name) (put_rows (SHEET_TITLE, ?name) (?df @ [?new]) wa)"
  have "ssa (get_weekly_worksheet_name pf (t_save c1)) = Some ?df"
    using sa n1 by simp
  from save_ok [OF fa da this, of "?df @ [?new]"]
  have sv: "save_attendance_dataframe (?df @ [?new]) (Spreadsheet SHEET_TITLE) pf (t_save c1) wa = ?w1"
    by (simp add: n1)
  have p1: "process_qrcode qr_data (Some c) pf c1 w =
      (Inr \<lparr>nama = n, kode = Some k, status = SUCCESS, waktu = strftime_HMS (t_scan c1),
             recent_attendance = Some (recent (?df @ [?new]))\<rparr>, ?w1)"
    using process_success [OF la ns p new] sv by simp
  have f1: "faults ?w1 = []"
    and d1: "drive ?w1 SHEET_TITLE = Some (ssa(?name \<mapsto> ?df @ [?new]))"
    using fa da by (simp_all add: print_def put_rows_def)
  have "(ssa(?name \<mapsto> ?df @ [?new])) (get_weekly_worksheet_name pf (t_load c2)) =
      Some (?df @ [?new])"
    by (simp add: n2)
  from load_present [OF f1 d1 this, of c]
  have l2: "get_attendance_dataframe (Some c) pf (t_load c2) ?w1 =
      (Inr (?df @ ?new # [], Spreadsheet SHEET_TITLE), ?w1)"
    by simp
  have kn: "Kode ?new = k"
    by simp
  have p2: "process_qrcode qr_data (Some c) pf c2 ?w1 =
      (Inr \<lparr>nama = n, kode = Some k, status = REGISTERED, waktu = Waktu ?new,
             recent_attendance = Some (recent (?df @ ?new # []))\<rparr>, ?w1)"
    using l2 p kn new by (rule process_registered)
  have g: "get_rows (SHEET_TITLE, ?name) ?w1 = ?df @ [?new]"
    using d1 by (simp add: get_rows_def)
  have "filter (\<lambda>r. Kode r = k) ?df = []"
    using new by (auto simp: filter_empty_conv)
  then have cnt: "length (filter (\<lambda>r. Kode r = k) (get_rows (SHEET_TITLE, ?name) ?w1)) = 1"
    by (simp add: g)
  show ?thesis
    using p1 p2 cnt by simp
qed

theorem resubmit_registered_witness:
  "faults w_fresh = [] \<and> drive w_fresh SHEET_TITLE = Some Map.empty \<and>
   parse_qr id_ID ''A1_BUDI-SANTOSO'' = Some (''A1'', ''BUDI SANTOSO'') \<and>
   date_of (t_save ck_friday) = date_of (t_load ck_friday) \<and>
   date_of (t_load ck_night) = date_of (t_load ck_friday) \<and>
   ''A1'' \<notin> set (map Kode
      (get_rows (SHEET_TITLE, get_weekly_worksheet_name id_ID (t_load ck_friday)) w_fresh)) \<and>
   (\<exists>r1 w1 r2 w2.
      process_qrcode ''A1_BUDI-SANTOSO'' (Some Client) id_ID ck_friday w_fresh = (Inr r1, w1) \<and>
      status r1 = SUCCESS \<and>
      process_qrcode ''A1_BUDI-SANTOSO'' (Some Client) id_ID ck_night w1 = (Inr r2, w2) \<and>
      status r2 = REGISTERED \<and> waktu r2 = waktu r1 \<and> waktu r1 = ''08:05:03'' \<and>
      length (filter (\<lambda>r. Kode r = ''A1'')
        (get_rows (SHEET_TITLE, ''JUMAT_24-10-2025'') w2)) = 1)"
proof -
  have h1: "faults w_fresh = []" and h2: "drive w_fresh SHEET_TITLE = Some Map.empty"
    by (simp_all add: w_fresh_def)
  have h4: "date_of (t_save ck_friday) = date_of (t_load ck_friday)"
    and h5: "date_of (t_load ck_night) = date_of (t_load ck_friday)"
    by (simp_all add: ck_friday_def ck_night_def date_of_def friday_morning_def friday_night_def)
  have h6: "''A1'' \<notin> set (map Kode
      (get_rows (SHEET_TITLE, get_weekly_worksheet_name id_ID (t_load ck_friday)) w_fresh))"
    by (simp add: get_rows_def w_fresh_def)
  have t: "strftime_HMS (t_scan ck_friday) = ''08:05:03''"
    "get_weekly_worksheet_name id_ID (t_load ck_friday) = ''JUMAT_24-10-2025''"
    by (simp_all add: ck_friday_def HMS_friday name_friday)
  show ?thesis
    using resubmit_registered [OF h1 h2 parse_budi h4 h5 h6, of Client] h1 h2 h4 h5 h6 parse_budi
    unfolding t by blast
qed

text \<open>
  C1 as stated fails. The partition already holds the code: the first of the two scans
  returns \<open>REGISTERED\<close>, not \<open>SUCCESS\<close>. And when the write of the first scan fails, the
  second scan of the same code returns \<open>SUCCESS\<close> again, with its own time.
\<close>

theorem resubmit_counterexample:
  "process_qrcode ''A1_BUDI-SANTOSO'' (Some Client) id_ID ck_night w_budi =
     (Inr \<lparr>nama = ''BUDI SANTOSO'', kode = Some ''A1'', status = REGISTERED,
            waktu = ''08:05:03'',
            recent_attendance = Some [[(''Nama'', ''BUDI SANTOSO''), (''Waktu'', ''08:05:03'')]]\<rparr>,
      w_budi) \<and>
   fst (process_qrcode ''A1_BUDI-SANTOSO'' (Some Client) id_ID ck_friday w_write_fails) =
     Inr \<lparr>nama = ''BUDI SANTOSO'', kode = Some ''A1'', status = SUCCESS, waktu = ''08:05:03'',
          recent_attendance = Some [[(''Nama'', ''BUDI SANTOSO''), (''Waktu'', ''08:05:03'')]]\<rparr> \<and>
   fst (process_qrcode ''A1_BUDI-SANTOSO'' (Some Client) id_ID ck_night
          (snd (process_qrcode ''A1_BUDI-SANTOSO'' (Some Client) id_ID ck_friday w_write_fails))) =
     Inr \<lparr>nama = ''BUDI SANTOSO'', kode = Some ''A1'', status = SUCCESS, waktu = ''23:59:59'',
          recent_attendance = Some [[(''Nama'', ''BUDI SANTOSO''), (''Waktu'', ''23:59:59'')]]\<rparr>"
  using scan_budi_first scan_write_fails scan_after_write_failure by simp

end
